theory Spec2Isabelle
  imports Main "HOL-Library.Sublist"
begin

section \<open>Python strings\<close>

text \<open>
  A Python \<open>str\<close> is a sequence of Unicode code points; it is modelled as a list of
  natural numbers (one per code point), so that \<open>strip\<close>, \<open>split\<close> and \<open>in\<close> see what
  Python sees. \<open>ascii\<close> turns an ASCII literal into such a string.
\<close>

type_synonym pystr = "nat list"

definition ascii :: "string \<Rightarrow> pystr" where
  "ascii s = map of_char s"

text \<open>\<open>sub in s\<close> on strings: \<open>sub\<close> occurs in \<open>s\<close> as a contiguous run.\<close>

fun py_in :: "pystr \<Rightarrow> pystr \<Rightarrow> bool" where
  "py_in sub [] = (sub = [])"
| "py_in sub (c # cs) = (prefix sub (c # cs) \<or> py_in sub cs)"

text \<open>
  \<open>s.split(sep)\<close> for a non-empty separator: the pieces between the non-overlapping
  occurrences of \<open>sep\<close>, found from the left. (Python raises ValueError for an empty
  separator; every call of the program passes a non-empty literal.)
\<close>

function py_split_from :: "pystr \<Rightarrow> pystr \<Rightarrow> pystr \<Rightarrow> pystr list" where
  "py_split_from sep piece [] = [rev piece]"
| "py_split_from sep piece (c # cs) =
     (if sep \<noteq> [] \<and> prefix sep (c # cs)
      then rev piece # py_split_from sep [] (drop (length sep) (c # cs))
      else py_split_from sep (c # piece) cs)"
  by pat_completeness auto
termination
  by (relation "measure (\<lambda>(sep, piece, s). length s)") (auto simp: neq_Nil_conv)

definition py_split :: "pystr \<Rightarrow> pystr \<Rightarrow> pystr list" where
  "py_split s sep = py_split_from sep [] s"

text \<open>\<open>sep.join(parts)\<close>.\<close>

fun py_join :: "pystr \<Rightarrow> pystr list \<Rightarrow> pystr" where
  "py_join sep [] = []"
| "py_join sep [p] = p"
| "py_join sep (p # q # ps) = p @ sep @ py_join sep (q # ps)"

text \<open>
  \<open>c.isspace()\<close>: the code points Python's \<open>str.strip()\<close> removes when called without
  an argument.
\<close>

definition py_isspace :: "nat \<Rightarrow> bool" where
  "py_isspace c =
     ((9 \<le> c \<and> c \<le> 13) \<or> (28 \<le> c \<and> c \<le> 32) \<or> c = 133 \<or> c = 160 \<or> c = 5760
      \<or> (8192 \<le> c \<and> c \<le> 8202) \<or> c = 8232 \<or> c = 8233 \<or> c = 8239 \<or> c = 8287
      \<or> c = 12288)"

definition py_strip :: "pystr \<Rightarrow> pystr" where
  "py_strip s = rev (dropWhile py_isspace (rev (dropWhile py_isspace s)))"

text \<open>
  \<open>s.lower()\<close>. The program lowers a file extension only to compare it with the ASCII
  words \<open>csv\<close> and \<open>db\<close>; no code point outside ASCII lowers to one of their letters, so
  code points outside \<open>A\<close>..\<open>Z\<close> are left as they are.
\<close>

definition py_lower :: "pystr \<Rightarrow> pystr" where
  "py_lower s = map (\<lambda>c. if 65 \<le> c \<and> c \<le> 90 then c + 32 else c) s"

section \<open>Exceptions\<close>

datatype exn =
    KeyError pystr
  | IndexError
  | ValueError
  | AttributeError
  | SameFileError
  | IsADirectoryError
  | FileNotFoundError
  | UnicodeEncodeError
  | Library_error pystr
  | Not_modelled

section \<open>\<open>str.format\<close> with keyword arguments\<close>

text \<open>
  The program calls \<open>template.format(name=..., ...)\<close> with keyword arguments only. The
  model follows CPython's scanner: literal text is copied, \<open>{{\<close> and \<open>}}\<close> stand for one
  brace, a lone \<open>}\<close> or a \<open>{\<close> at the end is a ValueError, and after any other \<open>{\<close> a
  replacement field is parsed: a field name up to \<open>}\<close>, \<open>:\<close> or \<open>!\<close>, an optional conversion
  after \<open>!\<close>, and after \<open>:\<close> a format specification that runs to the matching \<open>}\<close>.
\<close>

text \<open>The field name: \<open>(name, terminator, rest)\<close>. Code points: \<open>{\<close> 123, \<open>}\<close> 125,
  \<open>[\<close> 91, \<open>]\<close> 93, \<open>:\<close> 58, \<open>!\<close> 33, \<open>.\<close> 46.\<close>

function scan_field_name :: "pystr \<Rightarrow> pystr \<Rightarrow> exn + (pystr \<times> nat \<times> pystr)" where
  "scan_field_name acc [] = Inl ValueError"
| "scan_field_name acc (c # cs) =
     (if c = 123 then Inl ValueError
      else if c = 91 then
        scan_field_name (rev (takeWhile (\<lambda>d. d \<noteq> 93) cs) @ c # acc)
          (dropWhile (\<lambda>d. d \<noteq> 93) cs)
      else if c = 125 \<or> c = 58 \<or> c = 33 then Inr (rev acc, c, cs)
      else scan_field_name (c # acc) cs)"
  by pat_completeness auto
termination
  by (relation "measure (\<lambda>(acc, s). length s)")
     (auto simp: length_dropWhile_le less_Suc_eq_le)

text \<open>The format specification after \<open>:\<close>, with nested braces counted.\<close>

fun scan_format_spec :: "nat \<Rightarrow> pystr \<Rightarrow> pystr \<Rightarrow> exn + (pystr \<times> pystr)" where
  "scan_format_spec depth acc [] = Inl ValueError"
| "scan_format_spec depth acc (c # cs) =
     (if c = 123 then scan_format_spec (Suc depth) (c # acc) cs
      else if c = 125 then
        (if depth = 1 then Inr (rev acc, cs) else scan_format_spec (depth - 1) (c # acc) cs)
      else scan_format_spec depth (c # acc) cs)"

text \<open>A parsed field: its name, its conversion (if any), its format specification, and
  the text after its closing brace.\<close>

definition parse_field :: "pystr \<Rightarrow> exn + (pystr \<times> nat option \<times> pystr \<times> pystr)" where
  "parse_field s =
     (case scan_field_name [] s of
        Inl e \<Rightarrow> Inl e
      | Inr (name, t, rest) \<Rightarrow>
          if t = 125 then Inr (name, None, [], rest)
          else if t = 33 then
            (case rest of
               [] \<Rightarrow> Inl ValueError
             | conv # r1 \<Rightarrow>
                 (case r1 of
                    [] \<Rightarrow> Inl ValueError
                  | c2 # r2 \<Rightarrow>
                      if c2 = 125 then Inr (name, Some conv, [], r2)
                      else if c2 = 58 then
                        (case scan_format_spec 1 [] r2 of
                           Inl e \<Rightarrow> Inl e
                         | Inr (spec, r3) \<Rightarrow> Inr (name, Some conv, spec, r3))
                      else Inl ValueError))
          else
            (case scan_format_spec 1 [] rest of
               Inl e \<Rightarrow> Inl e
             | Inr (spec, r3) \<Rightarrow> Inr (name, None, spec, r3)))"

text \<open>
  Looking a field up. The first part of the name runs to the first \<open>.\<close> or \<open>[\<close>. An empty
  or all-digit first part indexes the positional arguments, of which there are none:
  IndexError. Any other first part is a keyword: KeyError when it is not among the
  keyword arguments. A keyword that is found is substituted when the field is the plain
  \<open>{name}\<close>; attribute or index access, conversions and non-empty format specifications
  are outside this model.
\<close>

definition is_digit :: "nat \<Rightarrow> bool" where
  "is_digit c = (48 \<le> c \<and> c \<le> 57)"

definition resolve_field ::
  "(pystr \<times> pystr) list \<Rightarrow> pystr \<Rightarrow> nat option \<Rightarrow> pystr \<Rightarrow> exn + pystr" where
  "resolve_field kwargs name conv spec =
     (let first = takeWhile (\<lambda>c. c \<noteq> 46 \<and> c \<noteq> 91) name;
          accessors = dropWhile (\<lambda>c. c \<noteq> 46 \<and> c \<noteq> 91) name
      in if first = [] \<or> list_all is_digit first then Inl IndexError
         else (case map_of kwargs first of
                 None \<Rightarrow> Inl (KeyError first)
               | Some v \<Rightarrow>
                   if accessors = [] \<and> conv = None \<and> spec = [] then Inr v
                   else Inl Not_modelled))"

lemma scan_field_name_shorter:
  "scan_field_name acc s = Inr (name, t, rest) \<Longrightarrow> length rest < length s"
proof (induction acc s rule: scan_field_name.induct)
  case (1 acc)
  then show ?case by simp
next
  case (2 acc c cs)
  have le: "length (dropWhile (\<lambda>d. d \<noteq> 93) cs) \<le> length cs"
    by (rule length_dropWhile_le)
  from 2 le show ?case
    by (auto split: if_splits simp: less_Suc_eq_le dest: less_imp_le)
qed

lemma scan_format_spec_shorter:
  "scan_format_spec depth acc s = Inr (spec, rest) \<Longrightarrow> length rest < length s"
  by (induction depth acc s rule: scan_format_spec.induct)
     (auto split: if_splits simp: less_Suc_eq)

lemma parse_field_shorter:
  "parse_field s = Inr (name, conv, spec, rest) \<Longrightarrow> length rest < length s"
  unfolding parse_field_def
  by (auto split: sum.splits prod.splits if_splits list.splits
      dest!: scan_field_name_shorter scan_format_spec_shorter)

text \<open>
  \<open>template.format(**kwargs)\<close>: the formatted text, or the first exception met from the
  left (Python raises it and the text built so far is lost).
\<close>

function py_format :: "(pystr \<times> pystr) list \<Rightarrow> pystr \<Rightarrow> exn + pystr" where
  "py_format kwargs [] = Inr []"
| "py_format kwargs (c # cs) =
     (if c = 123 then
        (case cs of
           [] \<Rightarrow> Inl ValueError
         | d # ds \<Rightarrow>
             if d = 123 then map_sum id ((#) c) (py_format kwargs ds)
             else
               (case parse_field (d # ds) of
                  Inl e \<Rightarrow> Inl e
                | Inr (name, conv, spec, rest) \<Rightarrow>
                    (case resolve_field kwargs name conv spec of
                       Inl e \<Rightarrow> Inl e
                     | Inr v \<Rightarrow> map_sum id ((@) v) (py_format kwargs rest))))
      else if c = 125 then
        (case cs of
           [] \<Rightarrow> Inl ValueError
         | d # ds \<Rightarrow>
             if d = 125 then map_sum id ((#) c) (py_format kwargs ds) else Inl ValueError)
      else map_sum id ((#) c) (py_format kwargs cs))"
  by pat_completeness auto
termination
  by (relation "measure (\<lambda>(kwargs, s). length s)")
     (auto dest!: parse_field_shorter)

section \<open>The response classifier and renderer (the tail of \<open>ask\<close>)\<close>

text \<open>\<open>clean_html\<close>: strip every line, drop the empty ones, join with single newlines.\<close>

definition clean_html :: "pystr \<Rightarrow> pystr" where
  "clean_html html_content =
     (let lines = map py_strip (py_split html_content [10]);
          lines = filter (\<lambda>line. line \<noteq> []) lines
      in py_join [10] lines)"

text \<open>The two page templates, line by line as the source has them.\<close>

definition table_template :: pystr where
  \<open>table_template = py_join [10] (map ascii
     [''<!DOCTYPE html>'',
      ''<html>'',
      ''<head>'',
      ''<title>Patient Data Table</title>'',
      ''<meta name="viewport" content="width=device-width, initial-scale=1.0">'',
      ''<style>'',
      ''body {'',
      ''font-family: Arial, sans-serif;'',
      ''margin: 0;'',
      ''padding: 20px;'',
      ''background-color: #f5f5f5;'',
      ''}'',
      ''.container {'',
      ''max-width: 1200px;'',
      ''margin: 0 auto;'',
      ''background-color: white;'',
      ''padding: 20px;'',
      ''border-radius: 8px;'',
      ''box-shadow: 0 2px 10px rgba(0,0,0,0.1);'',
      ''}'',
      ''.table-container {'',
      ''overflow-x: auto;'',
      ''}'',
      ''table {'',
      ''width: 100%;'',
      ''border-collapse: collapse;'',
      ''margin-top: 20px;'',
      ''}'',
      ''th, td {'',
      ''border: 1px solid #ddd;'',
      ''padding: 12px;'',
      ''text-align: left;'',
      ''}'',
      ''th {'',
      ''background-color: #f2f2f2;'',
      ''font-weight: bold;'',
      ''}'',
      ''tr:nth-child(even) {'',
      ''background-color: #f9f9f9;'',
      ''}'',
      ''tr:hover {'',
      ''background-color: #f1f1f1;'',
      ''}'',
      ''</style>'',
      ''</head>'',
      ''<body>'',
      ''<div class="container">'',
      ''<div class="table-container">'',
      ''{response}'',
      ''</div>'',
      ''</div>'',
      ''</body>'',
      ''</html>''])\<close>

definition chart_template :: pystr where
  \<open>chart_template = py_join [10] (map ascii
     [''<!DOCTYPE html>'',
      ''<html>'',
      ''<head>'',
      ''<title>{title}</title>'',
      ''<meta name="viewport" content="width=device-width, initial-scale=1.0">'',
      ''<style>'',
      ''body {'',
      ''font-family: Arial, sans-serif;'',
      ''margin: 0;'',
      ''padding: 20px;'',
      ''background-color: #f5f5f5;'',
      ''}'',
      ''.container {'',
      ''max-width: 1200px;'',
      ''margin: 0 auto;'',
      ''background-color: white;'',
      ''padding: 20px;'',
      ''border-radius: 8px;'',
      ''box-shadow: 0 2px 10px rgba(0,0,0,0.1);'',
      ''}'',
      ''h1 {'',
      ''color: #333;'',
      ''text-align: center;'',
      ''margin-bottom: 20px;'',
      ''}'',
      ''.chart-container {'',
      ''text-align: center;'',
      ''margin-top: 20px;'',
      ''}'',
      ''.chart-container img {'',
      ''max-width: 100%;'',
      ''height: auto;'',
      ''border: 1px solid #ddd;'',
      ''border-radius: 4px;'',
      ''}'',
      ''</style>'',
      ''</head>'',
      ''<body>'',
      ''<div class="container">'',
      ''<h1>{title}</h1>'',
      ''<div class="chart-container">'',
      ''<img src="data:image/png;base64,{plot_url}" alt="{title}">'',
      ''</div>'',
      ''</div>'',
      ''</body>'',
      ''</html>''])\<close>

text \<open>
  What \<open>json.loads\<close> returns. A number is kept as its literal text: the program only
  hands numbers on to the plotting library.
\<close>

datatype json =
    JNull
  | JBool bool
  | JNumber pystr
  | JString pystr
  | JArray "json list"
  | JObject "(pystr \<times> json) list"

text \<open>
  The external collaborators, as parameters of the model:
  \<^item> \<open>json_loads\<close>: \<open>json.loads\<close>;
  \<^item> \<open>plot_bar_base64\<close>: the matplotlib drawing of the bar chart and its base64
    encoding, from the labels, the values and the title to the text of \<open>plot_url\<close>, or
    the exception raised on the way;
  \<^item> \<open>str_of_json\<close>: \<open>str()\<close> of a title that is not a string, as \<open>format\<close> substitutes it;
  \<^item> \<open>base_dir\<close>: \<open>BASE_DIR\<close>, the absolute path of the directory of \<open>app.py\<close>;
  \<^item> \<open>secure_filename\<close>: werkzeug's sanitiser of uploaded file names;
  \<^item> \<open>read_csv\<close>: \<open>pandas.read_csv\<close>, from the bytes of a file to a table or an exception;
  \<^item> \<open>get_chat_response\<close>: the answering engine of \<open>chatbot_model\<close>, called with the
    value of \<open>message\<close>, the table and the history; it returns a string or raises
    (\<open>Inl\<close> holds \<open>str(e)\<close> of the exception);
  \<^item> \<open>random_rowid\<close>: the unused rowid SQLite picks at random once the largest rowid of
    a table is \<open>2^63 - 1\<close>;
  \<^item> \<open>stdout_encodes\<close>: whether the encoding of \<open>sys.stdout\<close> can encode a code point
    outside ASCII (\<open>print\<close> raises UnicodeEncodeError on a text that holds one it
    cannot);
  \<^item> \<open>encode_error_text\<close>: \<open>str(e)\<close> of the UnicodeEncodeError that \<open>print\<close> raises on a
    text;
  \<^item> \<open>number_as_stored\<close>: what SQLite keeps of a JSON number bound to a \<open>TEXT\<close> column,
    from the literal of the number: \<open>Some (Some t)\<close> its text, \<open>Some None\<close> NULL (for
    NaN), \<open>None\<close> when binding raises (an integer outside 64 bits).
  The type \<open>'df\<close> is the DataFrame.
\<close>

type_synonym bytes = "nat list"

record 'df env =
  json_loads :: "pystr \<Rightarrow> exn + json"
  plot_bar_base64 :: "json \<Rightarrow> json \<Rightarrow> json \<Rightarrow> exn + pystr"
  str_of_json :: "json \<Rightarrow> pystr"
  base_dir :: pystr
  secure_filename :: "pystr \<Rightarrow> pystr"
  read_csv :: "bytes \<Rightarrow> exn + 'df"
  get_chat_response ::
    "json \<Rightarrow> 'df \<Rightarrow> (pystr option \<times> pystr) list \<Rightarrow> pystr + pystr"
  random_rowid :: int
  stdout_encodes :: "nat \<Rightarrow> bool"
  encode_error_text :: "pystr \<Rightarrow> pystr"
  number_as_stored :: "pystr \<Rightarrow> pystr option option"

text \<open>\<open>d.get(key, default)\<close> on the dictionary of a JSON object (a list of pairs that
  holds each key once).\<close>

definition dict_get :: "(pystr \<times> json) list \<Rightarrow> pystr \<Rightarrow> json \<Rightarrow> json" where
  "dict_get d k dflt = (case map_of d k of None \<Rightarrow> dflt | Some v \<Rightarrow> v)"

text \<open>\<open>format(v, '')\<close>, which is also what an f-string puts for \<open>{v}\<close>.\<close>

definition format_arg :: "'df env \<Rightarrow> json \<Rightarrow> pystr" where
  "format_arg env v = (case v of JString s \<Rightarrow> s | _ \<Rightarrow> str_of_json env v)"

definition TABLE_TAG :: pystr where
  "TABLE_TAG = ascii ''<table''"

definition CHART_MARKER :: pystr where
  "CHART_MARKER = ascii ''CHART_DATA:''"

text \<open>The body of the \<open>try\<close> of the table branch: \<open>Inl\<close> is the exception it raises.\<close>

definition table_try :: "pystr \<Rightarrow> exn + pystr" where
  "table_try response =
     (case py_format [(ascii ''response'', response)] table_template of
        Inl e \<Rightarrow> Inl e
      | Inr formatted_template \<Rightarrow> Inr (clean_html formatted_template))"

text \<open>\<open>response.split("CHART_DATA:")[1].strip()\<close>.\<close>

definition chart_str :: "pystr \<Rightarrow> exn + pystr" where
  "chart_str response =
     (case py_split response CHART_MARKER of
        _ # part # _ \<Rightarrow> Inr (py_strip part)
      | _ \<Rightarrow> Inl IndexError)"

text \<open>The body of the \<open>try\<close> of the chart branch.\<close>

definition chart_try :: "'df env \<Rightarrow> pystr \<Rightarrow> exn + pystr" where
  "chart_try env response =
     (case chart_str response of
        Inl e \<Rightarrow> Inl e
      | Inr cs \<Rightarrow>
          (case json_loads env cs of
             Inl e \<Rightarrow> Inl e
           | Inr (JObject chart_json) \<Rightarrow>
               (let labels = dict_get chart_json (ascii ''labels'') (JArray []);
                    vals = dict_get chart_json (ascii ''values'') (JArray []);
                    title = dict_get chart_json (ascii ''title'') (JString (ascii ''Chart''))
                in case plot_bar_base64 env labels vals title of
                     Inl e \<Rightarrow> Inl e
                   | Inr plot_url \<Rightarrow>
                       (case py_format
                               [(ascii ''title'', format_arg env title),
                                (ascii ''plot_url'', plot_url)] chart_template of
                          Inl e \<Rightarrow> Inl e
                        | Inr formatted_template \<Rightarrow> Inr (clean_html formatted_template)))
           | Inr _ \<Rightarrow> Inl AttributeError))"

text \<open>
  The classification of the engine's answer and its rendering: what \<open>ask\<close> puts in the
  \<open>response\<close> field once the answer is saved. Each \<open>except Exception\<close> falls back to the
  answer as it came. A \<open>print\<close> inside one of the two \<open>try\<close> bodies that raises ends in
  the same \<open>except\<close>, so these are not told apart from the other exceptions.
\<close>

definition classify_and_render :: "'df env \<Rightarrow> pystr \<Rightarrow> pystr" where
  "classify_and_render env response =
     (if py_in TABLE_TAG response then
        (case table_try response of Inr clean_template \<Rightarrow> clean_template | Inl e \<Rightarrow> response)
      else if py_in CHART_MARKER response then
        (case chart_try env response of Inr clean_template \<Rightarrow> clean_template | Inl e \<Rightarrow> response)
      else response)"

section \<open>The SQLite tables\<close>

text \<open>
  Both tables have an \<open>INTEGER PRIMARY KEY\<close>, which is the rowid: SQLite stores the rows
  in a B-tree keyed by it. A table is the list of its rows \<open>(rowid, data)\<close> in B-tree
  order. \<open>INSERT\<close> without an id gives the new row the rowid 1 in an empty table and
  the largest rowid plus one otherwise, unless the largest is \<open>2^63 - 1\<close>.
\<close>

type_synonym 'r sql_table = "(int \<times> 'r) list"

definition new_rowid :: "int \<Rightarrow> 'r sql_table \<Rightarrow> int" where
  "new_rowid rnd t =
     (if t = [] then 1
      else if Max (set (map fst t)) = 2 ^ 63 - 1 then rnd
      else Max (set (map fst t)) + 1)"

definition sql_insert :: "int \<Rightarrow> 'r \<Rightarrow> 'r sql_table \<Rightarrow> 'r sql_table" where
  "sql_insert rnd r t = insort_key fst (new_rowid rnd t, r) t"

text \<open>\<open>SELECT ... FROM t\<close> with no \<open>ORDER BY\<close>: a scan of the table's B-tree.\<close>

definition sql_select_all :: "'r sql_table \<Rightarrow> 'r list" where
  "sql_select_all t = map snd t"

text \<open>\<open>SELECT ... FROM t ORDER BY id ASC\<close>.\<close>

definition sql_select_order_by_id_asc :: "'r sql_table \<Rightarrow> 'r list" where
  "sql_select_order_by_id_asc t = map snd (sort_key fst t)"

text \<open>\<open>SELECT ... FROM t ORDER BY id DESC LIMIT 1\<close>, then \<open>fetchone()\<close>.\<close>

definition sql_select_last :: "'r sql_table \<Rightarrow> 'r option" where
  "sql_select_last t = (case rev (sort_key fst t) of [] \<Rightarrow> None | row # _ \<Rightarrow> Some (snd row))"

section \<open>The state of the application\<close>

text \<open>
  The two globals, the two tables of \<open>chatbot_data.db\<close>, and the files on disk (a map
  from a path to the bytes of the file there; directories are not files).
\<close>

record 'df state =
  stop_execution_flag :: bool
  data_cache :: "'df option"
  chat_history :: "(pystr option \<times> pystr) sql_table"
  current_file :: "pystr sql_table"
  files :: "pystr \<rightharpoonup> bytes"

text \<open>\<open>os.path.join\<close> and \<open>os.path.basename\<close> (POSIX; 47 is the slash).\<close>

definition path_join :: "pystr \<Rightarrow> pystr \<Rightarrow> pystr" where
  "path_join a b =
     (if b \<noteq> [] \<and> hd b = 47 then b
      else if a = [] \<or> last a = 47 then a @ b
      else a @ [47] @ b)"

definition basename :: "pystr \<Rightarrow> pystr" where
  "basename p = rev (takeWhile (\<lambda>c. c \<noteq> 47) (rev p))"

definition UPLOAD_FOLDER :: "'df env \<Rightarrow> pystr" where
  "UPLOAD_FOLDER env = path_join (base_dir env) (ascii ''uploads'')"

definition ALLOWED_EXTENSIONS :: "pystr set" where
  "ALLOWED_EXTENSIONS = {ascii ''csv'', ascii ''db''}"

text \<open>\<open>STATIC_CSV\<close> as line 87 of the source leaves it (it replaces the value of line 23).\<close>

definition STATIC_CSV :: "'df env \<Rightarrow> pystr" where
  "STATIC_CSV env =
     path_join (path_join (base_dir env) (ascii ''uploads'')) (ascii ''patient_details2.csv'')"

definition path_exists :: "'df state \<Rightarrow> pystr \<Rightarrow> bool" where
  "path_exists s p = (files s p \<noteq> None)"

text \<open>\<open>filename.rsplit('.', 1)[1]\<close> of a name with a dot: what follows its last dot.\<close>

definition after_last_dot :: "pystr \<Rightarrow> pystr" where
  "after_last_dot filename = rev (takeWhile (\<lambda>c. c \<noteq> 46) (rev filename))"

definition allowed_file :: "pystr \<Rightarrow> bool" where
  "allowed_file filename =
     (46 \<in> set filename \<and> py_lower (after_last_dot filename) \<in> ALLOWED_EXTENSIONS)"

definition get_current_file :: "'df state \<Rightarrow> pystr option" where
  "get_current_file s = sql_select_last (current_file s)"

definition set_current_file :: "'df env \<Rightarrow> pystr \<Rightarrow> 'df state \<Rightarrow> 'df state" where
  "set_current_file env filename s =
     s\<lparr>current_file := sql_insert (random_rowid env) filename []\<rparr>"

text \<open>Python's truth of \<open>current_file\<close>: neither \<open>None\<close> nor the empty string.\<close>

definition truthy :: "pystr option \<Rightarrow> bool" where
  "truthy v = (case v of None \<Rightarrow> False | Some x \<Rightarrow> x \<noteq> [])"

definition load_data :: "'df env \<Rightarrow> 'df state \<Rightarrow> 'df state" where
  "load_data env s =
     (case get_current_file s of
        None \<Rightarrow> s\<lparr>data_cache := None\<rparr>
      | Some cf \<Rightarrow>
          if cf \<noteq> [] then
            (case files s (path_join (UPLOAD_FOLDER env) cf) of
               Some content \<Rightarrow>
                 (case read_csv env content of
                    Inr df \<Rightarrow> s\<lparr>data_cache := Some df\<rparr>
                  | Inl e \<Rightarrow> s\<lparr>data_cache := None\<rparr>)
             | None \<Rightarrow> s\<lparr>data_cache := None\<rparr>)
          else s\<lparr>data_cache := None\<rparr>)"

text \<open>\<open>shutil.copy(src, dst)\<close> between two file paths.\<close>

definition shutil_copy :: "pystr \<Rightarrow> pystr \<Rightarrow> (pystr \<rightharpoonup> bytes) \<Rightarrow> exn + (pystr \<rightharpoonup> bytes)" where
  "shutil_copy src dst fs =
     (case fs src of
        None \<Rightarrow> Inl FileNotFoundError
      | Some content \<Rightarrow> if src = dst then Inl SameFileError else Inr (fs(dst \<mapsto> content)))"

text \<open>
  \<open>needs_seed\<close> is \<open>(not current) or (current and not os.path.exists(current_path))\<close>:
  true for no pointer and for the empty name, and otherwise when no file is at the
  pointer's path.
\<close>

definition bootstrap_dataset :: "'df env \<Rightarrow> 'df state \<Rightarrow> exn + 'df state" where
  "bootstrap_dataset env s =
     (let current = get_current_file s;
          needs_seed =
            (case current of
               None \<Rightarrow> True
             | Some c \<Rightarrow> c = [] \<or> \<not> path_exists s (path_join (UPLOAD_FOLDER env) c))
      in if needs_seed then
           (if path_exists s (STATIC_CSV env) then
              (let dest = path_join (UPLOAD_FOLDER env) (basename (STATIC_CSV env))
               in case shutil_copy (STATIC_CSV env) dest (files s) of
                    Inl e \<Rightarrow> Inl e
                  | Inr fs \<Rightarrow>
                      Inr (set_current_file env (basename (STATIC_CSV env)) (s\<lparr>files := fs\<rparr>)))
            else Inr s)
         else Inr s)"

text \<open>
  The start of the process: \<open>bootstrap_dataset()\<close> then \<open>load_data()\<close> inside one \<open>try\<close>;
  an exception of the first skips the second and is only printed.
\<close>

definition startup :: "'df env \<Rightarrow> 'df state \<Rightarrow> 'df state" where
  "startup env s =
     (let s0 = s\<lparr>stop_execution_flag := False, data_cache := None\<rparr>
      in case bootstrap_dataset env s0 of Inl e \<Rightarrow> s0 | Inr s1 \<Rightarrow> load_data env s1)"

section \<open>The routes\<close>

datatype reply =
    Json_response pystr
  | Json_stopped
  | Json_status pystr
  | Redirect_index
  | Html_index "(pystr option \<times> pystr) list" "pystr option"
  | Internal_server_error exn

text \<open>
  \<open>Json_response r\<close> is \<open>{'response': r}\<close>; \<open>Json_stopped\<close> is
  \<open>{'status': 'stopped', 'response': None}\<close>; \<open>Json_status t\<close> is \<open>{'status': t}\<close>;
  \<open>Html_index history filename\<close> is the page rendered from \<open>index.html\<close> with these two
  arguments. Printing to the log is modelled in \<open>ask\<close>, where a printed line
  holds the message, the answer or the text of an exception; the other routes print
  file names and fixed messages only, and their printing is not modelled.
\<close>

text \<open>The read of \<open>index\<close>: \<open>SELECT message, response FROM chat_history\<close>.\<close>

definition index_history :: "'df state \<Rightarrow> (pystr option \<times> pystr) list" where
  "index_history s = sql_select_all (chat_history s)"

text \<open>The read of \<open>ask\<close>: \<open>SELECT message, response FROM chat_history ORDER BY id ASC\<close>.\<close>

definition session_history :: "'df state \<Rightarrow> (pystr option \<times> pystr) list" where
  "session_history s = sql_select_order_by_id_asc (chat_history s)"

definition index :: "'df state \<Rightarrow> reply" where
  "index s = Html_index (index_history s) (get_current_file s)"

definition stop_execution :: "'df state \<Rightarrow> reply \<times> 'df state" where
  "stop_execution s = (Json_status (ascii ''stopped''), s\<lparr>stop_execution_flag := True\<rparr>)"

definition clear_chat :: "'df state \<Rightarrow> reply \<times> 'df state" where
  "clear_chat s = (Json_status (ascii ''cleared''), s\<lparr>chat_history := []\<rparr>)"

definition delete_file :: "'df env \<Rightarrow> 'df state \<Rightarrow> reply \<times> 'df state" where
  "delete_file env s =
     (let current = get_current_file s
      in if truthy current then
           (case current of
              None \<Rightarrow> (Redirect_index, s)
            | Some cf \<Rightarrow>
                (let file_path = path_join (UPLOAD_FOLDER env) cf;
                     s1 = (if path_exists s file_path
                           then s\<lparr>files := (files s)(file_path := None)\<rparr> else s)
                 in (Redirect_index,
                     s1\<lparr>current_file := [], chat_history := [], data_cache := None\<rparr>)))
         else (Redirect_index, s))"

text \<open>
  A request to \<open>/upload\<close>: the \<open>file\<close> field of the form, if there is one, with the name
  the client gave and the bytes sent. A \<open>FileStorage\<close> is true when its name is not
  empty. \<open>file.save\<close> opens the path for writing; when the sanitised name is empty the
  path is the upload directory itself and the open raises, which Flask answers with
  status 500.
\<close>

definition upload_file ::
  "'df env \<Rightarrow> 'df state \<Rightarrow> (pystr \<times> bytes) option \<Rightarrow> reply \<times> 'df state" where
  "upload_file env s file_field =
     (case file_field of
        None \<Rightarrow> (Redirect_index, s)
      | Some (client_name, content) \<Rightarrow>
          if client_name \<noteq> [] \<and> allowed_file client_name then
            (let filename = secure_filename env client_name;
                 save_path = path_join (UPLOAD_FOLDER env) filename
             in if filename = [] then (Internal_server_error IsADirectoryError, s)
                else
                  (let s1 = s\<lparr>files := (files s)(save_path \<mapsto> content)\<rparr>;
                       s2 = set_current_file env filename s1;
                       s3 = load_data env s2
                   in (Redirect_index, s3\<lparr>chat_history := []\<rparr>)))
          else (Redirect_index, s))"

text \<open>
  A request to \<open>/ask\<close>: \<open>Body v\<close> when its body is a JSON object, with \<open>v\<close> the value of
  \<open>message\<close> (any JSON value; \<open>JNull\<close> when the key is missing or null, which Python
  reads as \<open>None\<close>); \<open>Bad_body e\<close> when \<open>request.json.get('message')\<close> raises (no JSON
  body, or JSON that is not an object), with \<open>e\<close> the text of the exception.
\<close>

datatype ask_request = Bad_body pystr | Body json

text \<open>
  What happens around one \<open>/ask\<close> request that the request does not decide: whether a
  \<open>/stop_execution\<close> request is served between the reset of the flag and the first
  checkpoint, whether one is served between the first checkpoint and the second, and
  whether the \<open>INSERT\<close> into \<open>chat_history\<close> raises for a reason of the database itself
  (its message, like the others the handler of that \<open>try\<close> prints, is ASCII).
\<close>

record schedule =
  stop_before_engine :: bool
  stop_during_engine :: bool
  insert_raises :: bool

text \<open>
  The outcome of \<open>ask\<close>: the reply, the state it leaves, and three traces: the arguments
  of every call of the engine, the values of the cancel flag read at the checkpoints
  that were reached, in order, and the rows given to an \<open>INSERT\<close> into \<open>chat_history\<close>
  that did not raise.
\<close>

record 'df ask_result =
  reply_of :: reply
  state_of :: "'df state"
  engine_calls :: "(json \<times> 'df \<times> (pystr option \<times> pystr) list) list"
  flag_reads :: "bool list"
  saved_turns :: "(pystr option \<times> pystr) list"

definition NO_DATA_WARNING :: pystr where
  "NO_DATA_WARNING =
     9888 # ascii '' No file uploaded or data loaded. Please upload a CSV first.''"

text \<open>
  \<open>print(text)\<close> returns when \<open>sys.stdout\<close> can encode the text and raises
  UnicodeEncodeError otherwise. ASCII is taken to be encodable: the fixed messages, the
  numbers and the tracebacks that the program prints are not modelled.
\<close>

definition can_print :: "'df env \<Rightarrow> pystr \<Rightarrow> bool" where
  "can_print env t = list_all (\<lambda>c. c < 128 \<or> stdout_encodes env c) t"

text \<open>The line that \<open>ask\<close> prints first (line 137 of the source).\<close>

definition received_line :: "'df env \<Rightarrow> json \<Rightarrow> pystr" where
  "received_line env user_input = ascii ''[DEBUG] Received request: '' @ format_arg env user_input"

text \<open>The line that \<open>ask\<close> prints of the engine's answer (line 160).\<close>

definition preview_line :: "pystr \<Rightarrow> pystr" where
  "preview_line response = ascii ''[DEBUG] Response preview: '' @ take 200 response @ ascii ''...''"

text \<open>
  The outer \<open>except\<close> of \<open>ask\<close>, for an exception with the text \<open>msg\<close>: it prints the text and
  answers \<open>Error: msg\<close>. When that \<open>print\<close> raises, the exception leaves the view and
  Flask answers with status 500.
\<close>

definition unhandled_exception :: "'df env \<Rightarrow> pystr \<Rightarrow> reply" where
  "unhandled_exception env msg =
     (if can_print env (ascii ''[ERROR] Unhandled exception in /ask: '' @ msg)
      then Json_response (ascii ''Error: '' @ msg)
      else Internal_server_error UnicodeEncodeError)"

text \<open>
  The \<open>except\<close> around the call of the engine, for an exception with the text \<open>msg\<close>: it
  prints the text and answers \<open>Error getting response: msg\<close>. When that \<open>print\<close> raises,
  the new exception reaches the outer \<open>except\<close>.
\<close>

definition engine_exception :: "'df env \<Rightarrow> pystr \<Rightarrow> reply" where
  "engine_exception env msg =
     (if can_print env (ascii ''[ERROR] Error in get_chat_response: '' @ msg)
      then Json_response (ascii ''Error getting response: '' @ msg)
      else unhandled_exception env
             (encode_error_text env (ascii ''[ERROR] Error in get_chat_response: '' @ msg)))"

text \<open>
  Binding the parameters of the \<open>INSERT\<close>. A surrogate code point cannot be encoded as
  UTF-8, so a string that holds one raises. The column \<open>message\<close> has \<open>TEXT\<close> affinity: a
  string is stored as it is, \<open>None\<close> as NULL, a boolean as the text of 1 or 0, a number as
  SQLite's text of it; a list or an object cannot be bound. \<open>stored_message\<close> gives what
  is stored, or \<open>None\<close> when binding raises.
\<close>

definition is_surrogate :: "nat \<Rightarrow> bool" where
  "is_surrogate c = (55296 \<le> c \<and> c \<le> 57343)"

definition stored_message :: "'df env \<Rightarrow> json \<Rightarrow> pystr option option" where
  "stored_message env v =
     (case v of
        JNull \<Rightarrow> Some None
      | JBool b \<Rightarrow> Some (Some (if b then ascii ''1'' else ascii ''0''))
      | JNumber literal \<Rightarrow> number_as_stored env literal
      | JString t \<Rightarrow> if list_ex is_surrogate t then None else Some (Some t)
      | JArray _ \<Rightarrow> None
      | JObject _ \<Rightarrow> None)"

text \<open>The row that the \<open>INSERT\<close> of \<open>ask\<close> stores, or \<open>None\<close> when it raises.\<close>

definition inserted_row ::
  "'df env \<Rightarrow> schedule \<Rightarrow> json \<Rightarrow> pystr \<Rightarrow> (pystr option \<times> pystr) option" where
  "inserted_row env sch user_input response =
     (if insert_raises sch \<or> list_ex is_surrogate response then None
      else (case stored_message env user_input of
              None \<Rightarrow> None
            | Some m \<Rightarrow> Some (m, response)))"

definition ask :: "'df env \<Rightarrow> schedule \<Rightarrow> 'df state \<Rightarrow> ask_request \<Rightarrow> 'df ask_result" where
  "ask env sch s req =
     (let s0 = s\<lparr>stop_execution_flag := False\<rparr>
      in case req of
           Bad_body err \<Rightarrow>
             \<lparr>reply_of = unhandled_exception env err, state_of = s0,
              engine_calls = [], flag_reads = [], saved_turns = []\<rparr>
         | Body user_input \<Rightarrow>
             if \<not> can_print env (received_line env user_input) then
               \<lparr>reply_of =
                  unhandled_exception env
                    (encode_error_text env (received_line env user_input)),
                state_of = s0, engine_calls = [], flag_reads = [], saved_turns = []\<rparr>
             else
             (case data_cache s0 of
                None \<Rightarrow>
                  \<lparr>reply_of = Json_response NO_DATA_WARNING, state_of = s0,
                   engine_calls = [], flag_reads = [], saved_turns = []\<rparr>
              | Some df \<Rightarrow>
                  (let history = session_history s0;
                       s1 = (if stop_before_engine sch then snd (stop_execution s0) else s0)
                   in if stop_execution_flag s1 then
                        \<lparr>reply_of = Json_stopped, state_of = s1,
                         engine_calls = [], flag_reads = [stop_execution_flag s1],
                         saved_turns = []\<rparr>
                      else
                        (let call = (user_input, df, history);
                             s2 = (if stop_during_engine sch then snd (stop_execution s1) else s1)
                         in case get_chat_response env user_input df history of
                              Inl err \<Rightarrow>
                                \<lparr>reply_of = engine_exception env err,
                                 state_of = s2, engine_calls = [call],
                                 flag_reads = [stop_execution_flag s1], saved_turns = []\<rparr>
                            | Inr response \<Rightarrow>
                                if \<not> can_print env (preview_line response) then
                                  \<lparr>reply_of =
                                     engine_exception env
                                       (encode_error_text env (preview_line response)),
                                   state_of = s2, engine_calls = [call],
                                   flag_reads = [stop_execution_flag s1], saved_turns = []\<rparr>
                                else if stop_execution_flag s2 then
                                  \<lparr>reply_of = Json_stopped, state_of = s2,
                                   engine_calls = [call],
                                   flag_reads = [stop_execution_flag s1, stop_execution_flag s2],
                                   saved_turns = []\<rparr>
                                else
                                  (let row = inserted_row env sch user_input response;
                                       s3 =
                                         (case row of
                                            None \<Rightarrow> s2
                                          | Some r \<Rightarrow>
                                              s2\<lparr>chat_history :=
                                                   sql_insert (random_rowid env) r
                                                     (chat_history s2)\<rparr>)
                                   in \<lparr>reply_of =
                                          Json_response (classify_and_render env response),
                                        state_of = s3, engine_calls = [call],
                                        flag_reads =
                                          [stop_execution_flag s1, stop_execution_flag s2],
                                        saved_turns =
                                          (case row of None \<Rightarrow> [] | Some r \<Rightarrow> [r])\<rparr>)))))"

text \<open>Any request, and the state after serving one and after serving several in turn.\<close>

datatype request =
    Get_index
  | Post_ask schedule ask_request
  | Post_stop_execution
  | Post_upload "(pystr \<times> bytes) option"
  | Post_delete_file
  | Post_clear_chat

definition serve :: "'df env \<Rightarrow> 'df state \<Rightarrow> request \<Rightarrow> 'df state" where
  "serve env s r =
     (case r of
        Get_index \<Rightarrow> s
      | Post_ask sch req \<Rightarrow> state_of (ask env sch s req)
      | Post_stop_execution \<Rightarrow> snd (stop_execution s)
      | Post_upload file_field \<Rightarrow> snd (upload_file env s file_field)
      | Post_delete_file \<Rightarrow> snd (delete_file env s)
      | Post_clear_chat \<Rightarrow> snd (clear_chat s))"

fun serve_all :: "'df env \<Rightarrow> 'df state \<Rightarrow> request list \<Rightarrow> 'df state" where
  "serve_all env s [] = s"
| "serve_all env s (r # rs) = serve_all env (serve env s r) rs"

text \<open>
  The rowids of a table that was filled from empty by inserts without an id and emptied
  only as a whole: 1, 2, ..., in B-tree order.
\<close>

definition rowids_from_one :: "'r sql_table \<Rightarrow> bool" where
  "rowids_from_one t = (map fst t = map int [1..<Suc (length t)])"

text \<open>
  The conversation log as the specification describes it: an ordered sequence of
  (question, answer) entries, with \<open>append\<close> putting an entry last and \<open>clear\<close> dropping
  all of them. \<open>conversation_after\<close> is what serving one request does to that sequence:
  an \<open>/ask\<close> appends the turn it saved, if any; \<open>/clear_chat\<close>, an accepted upload and
  the deletion of a current dataset clear it; anything else leaves it alone.
  \<open>conversation\<close> follows it along a run of requests.
\<close>

definition conversation_after ::
  "'df env \<Rightarrow> 'df state \<Rightarrow> request \<Rightarrow> (pystr option \<times> pystr) list
     \<Rightarrow> (pystr option \<times> pystr) list" where
  "conversation_after env s r entries =
     (case r of
        Post_ask sch req \<Rightarrow> entries @ saved_turns (ask env sch s req)
      | Post_clear_chat \<Rightarrow> []
      | Post_upload file_field \<Rightarrow>
          (case file_field of
             None \<Rightarrow> entries
           | Some (name, content) \<Rightarrow>
               if name \<noteq> [] \<and> allowed_file name
                  \<and> fst (upload_file env s file_field) = Redirect_index
               then [] else entries)
      | Post_delete_file \<Rightarrow> if truthy (get_current_file s) then [] else entries
      | _ \<Rightarrow> entries)"

fun conversation ::
  "'df env \<Rightarrow> 'df state \<Rightarrow> (pystr option \<times> pystr) list \<Rightarrow> request list
     \<Rightarrow> (pystr option \<times> pystr) list" where
  "conversation env s entries [] = entries"
| "conversation env s entries (r # rs) =
     conversation env (serve env s r) (conversation_after env s r entries) rs"

section \<open>An environment to run the model in\<close>

text \<open>
  Instances of the parameters, for running the model on concrete requests.

  \<open>posix_secure_filename\<close> is werkzeug's \<open>secure_filename\<close> on a POSIX system. It first
  normalises the name to NFKD and drops what is not ASCII. NFKD decomposes each code
  point on its own and then only reorders combining marks, none of which is ASCII, so
  what is left is, code point by code point, the ASCII part of its decomposition:
  \<open>nfkd_ascii\<close>, tabulated below for the code points outside ASCII whose decomposition
  has an ASCII part (Unicode 14.0, as Python 3.11 has it). Then each slash becomes a
  blank, the words between white space are joined by underscores, only letters,
  digits, underscore, dot and hyphen are kept, and dots and underscores are stripped
  from both ends.
\<close>

definition nfkd_ascii_part1 :: "(nat \<times> pystr) list" where
  "nfkd_ascii_part1 =
    [(160, [32]), (168, [32]), (170, [97]), (175, [32]), (178, [50]), (179, [51]), (180, [32]),
     (184, [32]), (185, [49]), (186, [111]), (188, [49, 52]), (189, [49, 50]), (190, [51, 52]),
     (192, [65]), (193, [65]), (194, [65]), (195, [65]), (196, [65]), (197, [65]), (199, [67]),
     (200, [69]), (201, [69]), (202, [69]), (203, [69]), (204, [73]), (205, [73]), (206, [73]),
     (207, [73]), (209, [78]), (210, [79]), (211, [79]), (212, [79]), (213, [79]), (214, [79]),
     (217, [85]), (218, [85]), (219, [85]), (220, [85]), (221, [89]), (224, [97]), (225, [97]),
     (226, [97]), (227, [97]), (228, [97]), (229, [97]), (231, [99]), (232, [101]),
     (233, [101]), (234, [101]), (235, [101]), (236, [105]), (237, [105]), (238, [105]),
     (239, [105]), (241, [110]), (242, [111]), (243, [111]), (244, [111]), (245, [111]),
     (246, [111]), (249, [117]), (250, [117]), (251, [117]), (252, [117]), (253, [121]),
     (255, [121]), (256, [65]), (257, [97]), (258, [65]), (259, [97]), (260, [65]),
     (261, [97]), (262, [67]), (263, [99]), (264, [67]), (265, [99]), (266, [67]), (267, [99]),
     (268, [67]), (269, [99]), (270, [68]), (271, [100]), (274, [69]), (275, [101]),
     (276, [69]), (277, [101]), (278, [69]), (279, [101]), (280, [69]), (281, [101]),
     (282, [69]), (283, [101]), (284, [71]), (285, [103]), (286, [71]), (287, [103]),
     (288, [71]), (289, [103]), (290, [71]), (291, [103]), (292, [72]), (293, [104]),
     (296, [73]), (297, [105]), (298, [73]), (299, [105]), (300, [73]), (301, [105]),
     (302, [73]), (303, [105]), (304, [73]), (306, [73, 74]), (307, [105, 106]), (308, [74]),
     (309, [106]), (310, [75]), (311, [107]), (313, [76]), (314, [108]), (315, [76]),
     (316, [108]), (317, [76]), (318, [108]), (319, [76]), (320, [108]), (323, [78]),
     (324, [110]), (325, [78]), (326, [110]), (327, [78]), (328, [110]), (329, [110]),
     (332, [79]), (333, [111]), (334, [79]), (335, [111]), (336, [79]), (337, [111]),
     (340, [82]), (341, [114]), (342, [82]), (343, [114]), (344, [82]), (345, [114]),
     (346, [83]), (347, [115]), (348, [83]), (349, [115]), (350, [83]), (351, [115]),
     (352, [83]), (353, [115]), (354, [84]), (355, [116]), (356, [84]), (357, [116]),
     (360, [85]), (361, [117]), (362, [85]), (363, [117]), (364, [85]), (365, [117]),
     (366, [85]), (367, [117]), (368, [85]), (369, [117]), (370, [85]), (371, [117]),
     (372, [87]), (373, [119]), (374, [89]), (375, [121]), (376, [89]), (377, [90]),
     (378, [122]), (379, [90]), (380, [122]), (381, [90]), (382, [122]), (383, [115]),
     (416, [79]), (417, [111]), (431, [85]), (432, [117]), (452, [68, 90]), (453, [68, 122]),
     (454, [100, 122]), (455, [76, 74]), (456, [76, 106]), (457, [108, 106]), (458, [78, 74]),
     (459, [78, 106]), (460, [110, 106]), (461, [65]), (462, [97]), (463, [73]), (464, [105]),
     (465, [79]), (466, [111]), (467, [85]), (468, [117]), (469, [85]), (470, [117]),
     (471, [85]), (472, [117]), (473, [85]), (474, [117]), (475, [85]), (476, [117]),
     (478, [65]), (479, [97]), (480, [65]), (481, [97])]"

definition nfkd_ascii_part2 :: "(nat \<times> pystr) list" where
  "nfkd_ascii_part2 =
    [(486, [71]), (487, [103]), (488, [75]), (489, [107]), (490, [79]), (491, [111]),
     (492, [79]), (493, [111]), (496, [106]), (497, [68, 90]), (498, [68, 122]),
     (499, [100, 122]), (500, [71]), (501, [103]), (504, [78]), (505, [110]), (506, [65]),
     (507, [97]), (512, [65]), (513, [97]), (514, [65]), (515, [97]), (516, [69]),
     (517, [101]), (518, [69]), (519, [101]), (520, [73]), (521, [105]), (522, [73]),
     (523, [105]), (524, [79]), (525, [111]), (526, [79]), (527, [111]), (528, [82]),
     (529, [114]), (530, [82]), (531, [114]), (532, [85]), (533, [117]), (534, [85]),
     (535, [117]), (536, [83]), (537, [115]), (538, [84]), (539, [116]), (542, [72]),
     (543, [104]), (550, [65]), (551, [97]), (552, [69]), (553, [101]), (554, [79]),
     (555, [111]), (556, [79]), (557, [111]), (558, [79]), (559, [111]), (560, [79]),
     (561, [111]), (562, [89]), (563, [121]), (688, [104]), (690, [106]), (691, [114]),
     (695, [119]), (696, [121]), (728, [32]), (729, [32]), (730, [32]), (731, [32]),
     (732, [32]), (733, [32]), (737, [108]), (738, [115]), (739, [120]), (890, [32]),
     (894, [59]), (900, [32]), (901, [32]), (7468, [65]), (7470, [66]), (7472, [68]),
     (7473, [69]), (7475, [71]), (7476, [72]), (7477, [73]), (7478, [74]), (7479, [75]),
     (7480, [76]), (7481, [77]), (7482, [78]), (7484, [79]), (7486, [80]), (7487, [82]),
     (7488, [84]), (7489, [85]), (7490, [87]), (7491, [97]), (7495, [98]), (7496, [100]),
     (7497, [101]), (7501, [103]), (7503, [107]), (7504, [109]), (7506, [111]), (7510, [112]),
     (7511, [116]), (7512, [117]), (7515, [118]), (7522, [105]), (7523, [114]), (7524, [117]),
     (7525, [118]), (7580, [99]), (7584, [102]), (7611, [122]), (7680, [65]), (7681, [97]),
     (7682, [66]), (7683, [98]), (7684, [66]), (7685, [98]), (7686, [66]), (7687, [98]),
     (7688, [67]), (7689, [99]), (7690, [68]), (7691, [100]), (7692, [68]), (7693, [100]),
     (7694, [68]), (7695, [100]), (7696, [68]), (7697, [100]), (7698, [68]), (7699, [100]),
     (7700, [69]), (7701, [101]), (7702, [69]), (7703, [101]), (7704, [69]), (7705, [101]),
     (7706, [69]), (7707, [101]), (7708, [69]), (7709, [101]), (7710, [70]), (7711, [102]),
     (7712, [71]), (7713, [103]), (7714, [72]), (7715, [104]), (7716, [72]), (7717, [104]),
     (7718, [72]), (7719, [104]), (7720, [72]), (7721, [104]), (7722, [72]), (7723, [104]),
     (7724, [73]), (7725, [105]), (7726, [73]), (7727, [105]), (7728, [75]), (7729, [107]),
     (7730, [75]), (7731, [107]), (7732, [75]), (7733, [107]), (7734, [76]), (7735, [108]),
     (7736, [76]), (7737, [108]), (7738, [76]), (7739, [108]), (7740, [76]), (7741, [108]),
     (7742, [77]), (7743, [109]), (7744, [77]), (7745, [109]), (7746, [77]), (7747, [109]),
     (7748, [78]), (7749, [110]), (7750, [78]), (7751, [110]), (7752, [78]), (7753, [110]),
     (7754, [78]), (7755, [110]), (7756, [79]), (7757, [111]), (7758, [79]), (7759, [111]),
     (7760, [79]), (7761, [111]), (7762, [79]), (7763, [111]), (7764, [80]), (7765, [112]),
     (7766, [80]), (7767, [112]), (7768, [82]), (7769, [114]), (7770, [82]), (7771, [114]),
     (7772, [82]), (7773, [114]), (7774, [82]), (7775, [114])]"

definition nfkd_ascii_part3 :: "(nat \<times> pystr) list" where
  "nfkd_ascii_part3 =
    [(7776, [83]), (7777, [115]), (7778, [83]), (7779, [115]), (7780, [83]), (7781, [115]),
     (7782, [83]), (7783, [115]), (7784, [83]), (7785, [115]), (7786, [84]), (7787, [116]),
     (7788, [84]), (7789, [116]), (7790, [84]), (7791, [116]), (7792, [84]), (7793, [116]),
     (7794, [85]), (7795, [117]), (7796, [85]), (7797, [117]), (7798, [85]), (7799, [117]),
     (7800, [85]), (7801, [117]), (7802, [85]), (7803, [117]), (7804, [86]), (7805, [118]),
     (7806, [86]), (7807, [118]), (7808, [87]), (7809, [119]), (7810, [87]), (7811, [119]),
     (7812, [87]), (7813, [119]), (7814, [87]), (7815, [119]), (7816, [87]), (7817, [119]),
     (7818, [88]), (7819, [120]), (7820, [88]), (7821, [120]), (7822, [89]), (7823, [121]),
     (7824, [90]), (7825, [122]), (7826, [90]), (7827, [122]), (7828, [90]), (7829, [122]),
     (7830, [104]), (7831, [116]), (7832, [119]), (7833, [121]), (7834, [97]), (7835, [115]),
     (7840, [65]), (7841, [97]), (7842, [65]), (7843, [97]), (7844, [65]), (7845, [97]),
     (7846, [65]), (7847, [97]), (7848, [65]), (7849, [97]), (7850, [65]), (7851, [97]),
     (7852, [65]), (7853, [97]), (7854, [65]), (7855, [97]), (7856, [65]), (7857, [97]),
     (7858, [65]), (7859, [97]), (7860, [65]), (7861, [97]), (7862, [65]), (7863, [97]),
     (7864, [69]), (7865, [101]), (7866, [69]), (7867, [101]), (7868, [69]), (7869, [101]),
     (7870, [69]), (7871, [101]), (7872, [69]), (7873, [101]), (7874, [69]), (7875, [101]),
     (7876, [69]), (7877, [101]), (7878, [69]), (7879, [101]), (7880, [73]), (7881, [105]),
     (7882, [73]), (7883, [105]), (7884, [79]), (7885, [111]), (7886, [79]), (7887, [111]),
     (7888, [79]), (7889, [111]), (7890, [79]), (7891, [111]), (7892, [79]), (7893, [111]),
     (7894, [79]), (7895, [111]), (7896, [79]), (7897, [111]), (7898, [79]), (7899, [111]),
     (7900, [79]), (7901, [111]), (7902, [79]), (7903, [111]), (7904, [79]), (7905, [111]),
     (7906, [79]), (7907, [111]), (7908, [85]), (7909, [117]), (7910, [85]), (7911, [117]),
     (7912, [85]), (7913, [117]), (7914, [85]), (7915, [117]), (7916, [85]), (7917, [117]),
     (7918, [85]), (7919, [117]), (7920, [85]), (7921, [117]), (7922, [89]), (7923, [121]),
     (7924, [89]), (7925, [121]), (7926, [89]), (7927, [121]), (7928, [89]), (7929, [121]),
     (8125, [32]), (8127, [32]), (8128, [32]), (8129, [32]), (8141, [32]), (8142, [32]),
     (8143, [32]), (8157, [32]), (8158, [32]), (8159, [32]), (8173, [32]), (8174, [32]),
     (8175, [96]), (8189, [32]), (8190, [32]), (8192, [32]), (8193, [32]), (8194, [32]),
     (8195, [32]), (8196, [32]), (8197, [32]), (8198, [32]), (8199, [32]), (8200, [32]),
     (8201, [32]), (8202, [32]), (8215, [32]), (8228, [46]), (8229, [46, 46]),
     (8230, [46, 46, 46]), (8239, [32]), (8252, [33, 33]), (8254, [32]), (8263, [63, 63]),
     (8264, [63, 33]), (8265, [33, 63]), (8287, [32]), (8304, [48]), (8305, [105]),
     (8308, [52]), (8309, [53]), (8310, [54]), (8311, [55]), (8312, [56]), (8313, [57]),
     (8314, [43]), (8316, [61]), (8317, [40]), (8318, [41]), (8319, [110]), (8320, [48]),
     (8321, [49]), (8322, [50]), (8323, [51]), (8324, [52]), (8325, [53]), (8326, [54]),
     (8327, [55]), (8328, [56]), (8329, [57]), (8330, [43]), (8332, [61]), (8333, [40])]"

definition nfkd_ascii_part4 :: "(nat \<times> pystr) list" where
  "nfkd_ascii_part4 =
    [(8334, [41]), (8336, [97]), (8337, [101]), (8338, [111]), (8339, [120]), (8341, [104]),
     (8342, [107]), (8343, [108]), (8344, [109]), (8345, [110]), (8346, [112]), (8347, [115]),
     (8348, [116]), (8360, [82, 115]), (8448, [97, 47, 99]), (8449, [97, 47, 115]),
     (8450, [67]), (8451, [67]), (8453, [99, 47, 111]), (8454, [99, 47, 117]), (8457, [70]),
     (8458, [103]), (8459, [72]), (8460, [72]), (8461, [72]), (8462, [104]), (8464, [73]),
     (8465, [73]), (8466, [76]), (8467, [108]), (8469, [78]), (8470, [78, 111]), (8473, [80]),
     (8474, [81]), (8475, [82]), (8476, [82]), (8477, [82]), (8480, [83, 77]),
     (8481, [84, 69, 76]), (8482, [84, 77]), (8484, [90]), (8488, [90]), (8490, [75]),
     (8491, [65]), (8492, [66]), (8493, [67]), (8495, [101]), (8496, [69]), (8497, [70]),
     (8499, [77]), (8500, [111]), (8505, [105]), (8507, [70, 65, 88]), (8517, [68]),
     (8518, [100]), (8519, [101]), (8520, [105]), (8521, [106]), (8528, [49, 55]),
     (8529, [49, 57]), (8530, [49, 49, 48]), (8531, [49, 51]), (8532, [50, 51]),
     (8533, [49, 53]), (8534, [50, 53]), (8535, [51, 53]), (8536, [52, 53]), (8537, [49, 54]),
     (8538, [53, 54]), (8539, [49, 56]), (8540, [51, 56]), (8541, [53, 56]), (8542, [55, 56]),
     (8543, [49]), (8544, [73]), (8545, [73, 73]), (8546, [73, 73, 73]), (8547, [73, 86]),
     (8548, [86]), (8549, [86, 73]), (8550, [86, 73, 73]), (8551, [86, 73, 73, 73]),
     (8552, [73, 88]), (8553, [88]), (8554, [88, 73]), (8555, [88, 73, 73]), (8556, [76]),
     (8557, [67]), (8558, [68]), (8559, [77]), (8560, [105]), (8561, [105, 105]),
     (8562, [105, 105, 105]), (8563, [105, 118]), (8564, [118]), (8565, [118, 105]),
     (8566, [118, 105, 105]), (8567, [118, 105, 105, 105]), (8568, [105, 120]), (8569, [120]),
     (8570, [120, 105]), (8571, [120, 105, 105]), (8572, [108]), (8573, [99]), (8574, [100]),
     (8575, [109]), (8585, [48, 51]), (8800, [61]), (8814, [60]), (8815, [62]), (9312, [49]),
     (9313, [50]), (9314, [51]), (9315, [52]), (9316, [53]), (9317, [54]), (9318, [55]),
     (9319, [56]), (9320, [57]), (9321, [49, 48]), (9322, [49, 49]), (9323, [49, 50]),
     (9324, [49, 51]), (9325, [49, 52]), (9326, [49, 53]), (9327, [49, 54]), (9328, [49, 55]),
     (9329, [49, 56]), (9330, [49, 57]), (9331, [50, 48]), (9332, [40, 49, 41]),
     (9333, [40, 50, 41]), (9334, [40, 51, 41]), (9335, [40, 52, 41]), (9336, [40, 53, 41]),
     (9337, [40, 54, 41]), (9338, [40, 55, 41]), (9339, [40, 56, 41]), (9340, [40, 57, 41]),
     (9341, [40, 49, 48, 41]), (9342, [40, 49, 49, 41]), (9343, [40, 49, 50, 41]),
     (9344, [40, 49, 51, 41]), (9345, [40, 49, 52, 41]), (9346, [40, 49, 53, 41]),
     (9347, [40, 49, 54, 41]), (9348, [40, 49, 55, 41]), (9349, [40, 49, 56, 41]),
     (9350, [40, 49, 57, 41]), (9351, [40, 50, 48, 41]), (9352, [49, 46]), (9353, [50, 46]),
     (9354, [51, 46]), (9355, [52, 46]), (9356, [53, 46]), (9357, [54, 46]), (9358, [55, 46]),
     (9359, [56, 46]), (9360, [57, 46]), (9361, [49, 48, 46]), (9362, [49, 49, 46]),
     (9363, [49, 50, 46]), (9364, [49, 51, 46]), (9365, [49, 52, 46]), (9366, [49, 53, 46]),
     (9367, [49, 54, 46]), (9368, [49, 55, 46]), (9369, [49, 56, 46]), (9370, [49, 57, 46]),
     (9371, [50, 48, 46]), (9372, [40, 97, 41]), (9373, [40, 98, 41]), (9374, [40, 99, 41]),
     (9375, [40, 100, 41]), (9376, [40, 101, 41]), (9377, [40, 102, 41]),
     (9378, [40, 103, 41]), (9379, [40, 104, 41]), (9380, [40, 105, 41]),
     (9381, [40, 106, 41]), (9382, [40, 107, 41]), (9383, [40, 108, 41]),
     (9384, [40, 109, 41]), (9385, [40, 110, 41]), (9386, [40, 111, 41]),
     (9387, [40, 112, 41]), (9388, [40, 113, 41]), (9389, [40, 114, 41]),
     (9390, [40, 115, 41]), (9391, [40, 116, 41]), (9392, [40, 117, 41]),
     (9393, [40, 118, 41]), (9394, [40, 119, 41]), (9395, [40, 120, 41]),
     (9396, [40, 121, 41]), (9397, [40, 122, 41]), (9398, [65]), (9399, [66]), (9400, [67]),
     (9401, [68]), (9402, [69]), (9403, [70]), (9404, [71]), (9405, [72]), (9406, [73]),
     (9407, [74]), (9408, [75]), (9409, [76]), (9410, [77]), (9411, [78]), (9412, [79]),
     (9413, [80]), (9414, [81])]"

definition nfkd_ascii_part5 :: "(nat \<times> pystr) list" where
  "nfkd_ascii_part5 =
    [(9415, [82]), (9416, [83]), (9417, [84]), (9418, [85]), (9419, [86]), (9420, [87]),
     (9421, [88]), (9422, [89]), (9423, [90]), (9424, [97]), (9425, [98]), (9426, [99]),
     (9427, [100]), (9428, [101]), (9429, [102]), (9430, [103]), (9431, [104]), (9432, [105]),
     (9433, [106]), (9434, [107]), (9435, [108]), (9436, [109]), (9437, [110]), (9438, [111]),
     (9439, [112]), (9440, [113]), (9441, [114]), (9442, [115]), (9443, [116]), (9444, [117]),
     (9445, [118]), (9446, [119]), (9447, [120]), (9448, [121]), (9449, [122]), (9450, [48]),
     (10868, [58, 58, 61]), (10869, [61, 61]), (10870, [61, 61, 61]), (11388, [106]),
     (11389, [86]), (12288, [32]), (12443, [32]), (12444, [32]), (12800, [40, 41]),
     (12801, [40, 41]), (12802, [40, 41]), (12803, [40, 41]), (12804, [40, 41]),
     (12805, [40, 41]), (12806, [40, 41]), (12807, [40, 41]), (12808, [40, 41]),
     (12809, [40, 41]), (12810, [40, 41]), (12811, [40, 41]), (12812, [40, 41]),
     (12813, [40, 41]), (12814, [40, 41]), (12815, [40, 41]), (12816, [40, 41]),
     (12817, [40, 41]), (12818, [40, 41]), (12819, [40, 41]), (12820, [40, 41]),
     (12821, [40, 41]), (12822, [40, 41]), (12823, [40, 41]), (12824, [40, 41]),
     (12825, [40, 41]), (12826, [40, 41]), (12827, [40, 41]), (12828, [40, 41]),
     (12829, [40, 41]), (12830, [40, 41]), (12832, [40, 41]), (12833, [40, 41]),
     (12834, [40, 41]), (12835, [40, 41]), (12836, [40, 41]), (12837, [40, 41]),
     (12838, [40, 41]), (12839, [40, 41]), (12840, [40, 41]), (12841, [40, 41]),
     (12842, [40, 41]), (12843, [40, 41]), (12844, [40, 41]), (12845, [40, 41]),
     (12846, [40, 41]), (12847, [40, 41]), (12848, [40, 41]), (12849, [40, 41]),
     (12850, [40, 41]), (12851, [40, 41]), (12852, [40, 41]), (12853, [40, 41]),
     (12854, [40, 41]), (12855, [40, 41]), (12856, [40, 41]), (12857, [40, 41]),
     (12858, [40, 41]), (12859, [40, 41]), (12860, [40, 41]), (12861, [40, 41]),
     (12862, [40, 41]), (12863, [40, 41]), (12864, [40, 41]), (12865, [40, 41]),
     (12866, [40, 41]), (12867, [40, 41]), (12880, [80, 84, 69]), (12881, [50, 49]),
     (12882, [50, 50]), (12883, [50, 51]), (12884, [50, 52]), (12885, [50, 53]),
     (12886, [50, 54]), (12887, [50, 55]), (12888, [50, 56]), (12889, [50, 57]),
     (12890, [51, 48]), (12891, [51, 49]), (12892, [51, 50]), (12893, [51, 51]),
     (12894, [51, 52]), (12895, [51, 53]), (12977, [51, 54]), (12978, [51, 55]),
     (12979, [51, 56]), (12980, [51, 57]), (12981, [52, 48]), (12982, [52, 49]),
     (12983, [52, 50]), (12984, [52, 51]), (12985, [52, 52]), (12986, [52, 53]),
     (12987, [52, 54]), (12988, [52, 55]), (12989, [52, 56]), (12990, [52, 57]),
     (12991, [53, 48]), (12992, [49]), (12993, [50]), (12994, [51]), (12995, [52]),
     (12996, [53]), (12997, [54]), (12998, [55]), (12999, [56]), (13000, [57]),
     (13001, [49, 48]), (13002, [49, 49]), (13003, [49, 50]), (13004, [72, 103]),
     (13005, [101, 114, 103]), (13006, [101, 86]), (13007, [76, 84, 68]), (13144, [48]),
     (13145, [49]), (13146, [50]), (13147, [51]), (13148, [52]), (13149, [53]), (13150, [54]),
     (13151, [55]), (13152, [56]), (13153, [57]), (13154, [49, 48]), (13155, [49, 49]),
     (13156, [49, 50]), (13157, [49, 51]), (13158, [49, 52]), (13159, [49, 53]),
     (13160, [49, 54]), (13161, [49, 55]), (13162, [49, 56]), (13163, [49, 57]),
     (13164, [50, 48]), (13165, [50, 49]), (13166, [50, 50]), (13167, [50, 51]),
     (13168, [50, 52]), (13169, [104, 80, 97]), (13170, [100, 97]), (13171, [65, 85]),
     (13172, [98, 97, 114]), (13173, [111, 86]), (13174, [112, 99]), (13175, [100, 109]),
     (13176, [100, 109, 50]), (13177, [100, 109, 51]), (13178, [73, 85]), (13184, [112, 65]),
     (13185, [110, 65]), (13186, [65]), (13187, [109, 65]), (13188, [107, 65]),
     (13189, [75, 66]), (13190, [77, 66]), (13191, [71, 66]), (13192, [99, 97, 108]),
     (13193, [107, 99, 97, 108]), (13194, [112, 70]), (13195, [110, 70]), (13196, [70]),
     (13197, [103]), (13198, [109, 103]), (13199, [107, 103]), (13200, [72, 122]),
     (13201, [107, 72, 122]), (13202, [77, 72, 122]), (13203, [71, 72, 122])]"

definition nfkd_ascii_part6 :: "(nat \<times> pystr) list" where
  "nfkd_ascii_part6 =
    [(13204, [84, 72, 122]), (13205, [108]), (13206, [109, 108]), (13207, [100, 108]),
     (13208, [107, 108]), (13209, [102, 109]), (13210, [110, 109]), (13211, [109]),
     (13212, [109, 109]), (13213, [99, 109]), (13214, [107, 109]), (13215, [109, 109, 50]),
     (13216, [99, 109, 50]), (13217, [109, 50]), (13218, [107, 109, 50]),
     (13219, [109, 109, 51]), (13220, [99, 109, 51]), (13221, [109, 51]),
     (13222, [107, 109, 51]), (13223, [109, 115]), (13224, [109, 115, 50]), (13225, [80, 97]),
     (13226, [107, 80, 97]), (13227, [77, 80, 97]), (13228, [71, 80, 97]),
     (13229, [114, 97, 100]), (13230, [114, 97, 100, 115]), (13231, [114, 97, 100, 115, 50]),
     (13232, [112, 115]), (13233, [110, 115]), (13234, [115]), (13235, [109, 115]),
     (13236, [112, 86]), (13237, [110, 86]), (13238, [86]), (13239, [109, 86]),
     (13240, [107, 86]), (13241, [77, 86]), (13242, [112, 87]), (13243, [110, 87]),
     (13244, [87]), (13245, [109, 87]), (13246, [107, 87]), (13247, [77, 87]), (13248, [107]),
     (13249, [77]), (13250, [97, 46, 109, 46]), (13251, [66, 113]), (13252, [99, 99]),
     (13253, [99, 100]), (13254, [67, 107, 103]), (13255, [67, 111, 46]), (13256, [100, 66]),
     (13257, [71, 121]), (13258, [104, 97]), (13259, [72, 80]), (13260, [105, 110]),
     (13261, [75, 75]), (13262, [75, 77]), (13263, [107, 116]), (13264, [108, 109]),
     (13265, [108, 110]), (13266, [108, 111, 103]), (13267, [108, 120]), (13268, [109, 98]),
     (13269, [109, 105, 108]), (13270, [109, 111, 108]), (13271, [80, 72]),
     (13272, [112, 46, 109, 46]), (13273, [80, 80, 77]), (13274, [80, 82]),
     (13275, [115, 114]), (13276, [83, 118]), (13277, [87, 98]), (13278, [86, 109]),
     (13279, [65, 109]), (13280, [49]), (13281, [50]), (13282, [51]), (13283, [52]),
     (13284, [53]), (13285, [54]), (13286, [55]), (13287, [56]), (13288, [57]),
     (13289, [49, 48]), (13290, [49, 49]), (13291, [49, 50]), (13292, [49, 51]),
     (13293, [49, 52]), (13294, [49, 53]), (13295, [49, 54]), (13296, [49, 55]),
     (13297, [49, 56]), (13298, [49, 57]), (13299, [50, 48]), (13300, [50, 49]),
     (13301, [50, 50]), (13302, [50, 51]), (13303, [50, 52]), (13304, [50, 53]),
     (13305, [50, 54]), (13306, [50, 55]), (13307, [50, 56]), (13308, [50, 57]),
     (13309, [51, 48]), (13310, [51, 49]), (13311, [103, 97, 108]), (42994, [67]),
     (42995, [70]), (42996, [81]), (64256, [102, 102]), (64257, [102, 105]),
     (64258, [102, 108]), (64259, [102, 102, 105]), (64260, [102, 102, 108]),
     (64261, [115, 116]), (64262, [115, 116]), (64297, [43]), (64606, [32]), (64607, [32]),
     (64608, [32]), (64609, [32]), (64610, [32]), (64611, [32]), (65018, [32, 32, 32]),
     (65019, [32]), (65040, [44]), (65043, [58]), (65044, [59]), (65045, [33]), (65046, [63]),
     (65049, [46, 46, 46]), (65072, [46, 46]), (65075, [95]), (65076, [95]), (65077, [40]),
     (65078, [41]), (65079, [123]), (65080, [125]), (65095, [91]), (65096, [93]),
     (65097, [32]), (65098, [32]), (65099, [32]), (65100, [32]), (65101, [95]), (65102, [95]),
     (65103, [95]), (65104, [44]), (65106, [46]), (65108, [59]), (65109, [58]), (65110, [63]),
     (65111, [33]), (65113, [40]), (65114, [41]), (65115, [123]), (65116, [125]),
     (65119, [35]), (65120, [38]), (65121, [42]), (65122, [43]), (65123, [45]), (65124, [60]),
     (65125, [62]), (65126, [61]), (65128, [92]), (65129, [36]), (65130, [37]), (65131, [64]),
     (65136, [32]), (65138, [32]), (65140, [32]), (65142, [32]), (65144, [32]), (65146, [32]),
     (65148, [32]), (65150, [32]), (65281, [33]), (65282, [34]), (65283, [35]), (65284, [36]),
     (65285, [37]), (65286, [38]), (65287, [39]), (65288, [40]), (65289, [41]), (65290, [42]),
     (65291, [43]), (65292, [44]), (65293, [45]), (65294, [46]), (65295, [47]), (65296, [48]),
     (65297, [49]), (65298, [50]), (65299, [51]), (65300, [52]), (65301, [53]), (65302, [54]),
     (65303, [55]), (65304, [56]), (65305, [57]), (65306, [58]), (65307, [59]), (65308, [60]),
     (65309, [61]), (65310, [62]), (65311, [63]), (65312, [64]), (65313, [65]), (65314, [66])]"

definition nfkd_ascii_part7 :: "(nat \<times> pystr) list" where
  "nfkd_ascii_part7 =
    [(65315, [67]), (65316, [68]), (65317, [69]), (65318, [70]), (65319, [71]), (65320, [72]),
     (65321, [73]), (65322, [74]), (65323, [75]), (65324, [76]), (65325, [77]), (65326, [78]),
     (65327, [79]), (65328, [80]), (65329, [81]), (65330, [82]), (65331, [83]), (65332, [84]),
     (65333, [85]), (65334, [86]), (65335, [87]), (65336, [88]), (65337, [89]), (65338, [90]),
     (65339, [91]), (65340, [92]), (65341, [93]), (65342, [94]), (65343, [95]), (65344, [96]),
     (65345, [97]), (65346, [98]), (65347, [99]), (65348, [100]), (65349, [101]),
     (65350, [102]), (65351, [103]), (65352, [104]), (65353, [105]), (65354, [106]),
     (65355, [107]), (65356, [108]), (65357, [109]), (65358, [110]), (65359, [111]),
     (65360, [112]), (65361, [113]), (65362, [114]), (65363, [115]), (65364, [116]),
     (65365, [117]), (65366, [118]), (65367, [119]), (65368, [120]), (65369, [121]),
     (65370, [122]), (65371, [123]), (65372, [124]), (65373, [125]), (65374, [126]),
     (65507, [32]), (67493, [113]), (119808, [65]), (119809, [66]), (119810, [67]),
     (119811, [68]), (119812, [69]), (119813, [70]), (119814, [71]), (119815, [72]),
     (119816, [73]), (119817, [74]), (119818, [75]), (119819, [76]), (119820, [77]),
     (119821, [78]), (119822, [79]), (119823, [80]), (119824, [81]), (119825, [82]),
     (119826, [83]), (119827, [84]), (119828, [85]), (119829, [86]), (119830, [87]),
     (119831, [88]), (119832, [89]), (119833, [90]), (119834, [97]), (119835, [98]),
     (119836, [99]), (119837, [100]), (119838, [101]), (119839, [102]), (119840, [103]),
     (119841, [104]), (119842, [105]), (119843, [106]), (119844, [107]), (119845, [108]),
     (119846, [109]), (119847, [110]), (119848, [111]), (119849, [112]), (119850, [113]),
     (119851, [114]), (119852, [115]), (119853, [116]), (119854, [117]), (119855, [118]),
     (119856, [119]), (119857, [120]), (119858, [121]), (119859, [122]), (119860, [65]),
     (119861, [66]), (119862, [67]), (119863, [68]), (119864, [69]), (119865, [70]),
     (119866, [71]), (119867, [72]), (119868, [73]), (119869, [74]), (119870, [75]),
     (119871, [76]), (119872, [77]), (119873, [78]), (119874, [79]), (119875, [80]),
     (119876, [81]), (119877, [82]), (119878, [83]), (119879, [84]), (119880, [85]),
     (119881, [86]), (119882, [87]), (119883, [88]), (119884, [89]), (119885, [90]),
     (119886, [97]), (119887, [98]), (119888, [99]), (119889, [100]), (119890, [101]),
     (119891, [102]), (119892, [103]), (119894, [105]), (119895, [106]), (119896, [107]),
     (119897, [108]), (119898, [109]), (119899, [110]), (119900, [111]), (119901, [112]),
     (119902, [113]), (119903, [114]), (119904, [115]), (119905, [116]), (119906, [117]),
     (119907, [118]), (119908, [119]), (119909, [120]), (119910, [121]), (119911, [122]),
     (119912, [65]), (119913, [66]), (119914, [67]), (119915, [68]), (119916, [69]),
     (119917, [70]), (119918, [71]), (119919, [72]), (119920, [73]), (119921, [74]),
     (119922, [75]), (119923, [76]), (119924, [77]), (119925, [78]), (119926, [79]),
     (119927, [80]), (119928, [81]), (119929, [82]), (119930, [83]), (119931, [84]),
     (119932, [85]), (119933, [86]), (119934, [87]), (119935, [88]), (119936, [89]),
     (119937, [90]), (119938, [97]), (119939, [98]), (119940, [99]), (119941, [100]),
     (119942, [101]), (119943, [102]), (119944, [103]), (119945, [104]), (119946, [105]),
     (119947, [106]), (119948, [107]), (119949, [108]), (119950, [109]), (119951, [110]),
     (119952, [111]), (119953, [112]), (119954, [113]), (119955, [114]), (119956, [115]),
     (119957, [116]), (119958, [117]), (119959, [118])]"

definition nfkd_ascii_part8 :: "(nat \<times> pystr) list" where
  "nfkd_ascii_part8 =
    [(119960, [119]), (119961, [120]), (119962, [121]), (119963, [122]), (119964, [65]),
     (119966, [67]), (119967, [68]), (119970, [71]), (119973, [74]), (119974, [75]),
     (119977, [78]), (119978, [79]), (119979, [80]), (119980, [81]), (119982, [83]),
     (119983, [84]), (119984, [85]), (119985, [86]), (119986, [87]), (119987, [88]),
     (119988, [89]), (119989, [90]), (119990, [97]), (119991, [98]), (119992, [99]),
     (119993, [100]), (119995, [102]), (119997, [104]), (119998, [105]), (119999, [106]),
     (120000, [107]), (120001, [108]), (120002, [109]), (120003, [110]), (120005, [112]),
     (120006, [113]), (120007, [114]), (120008, [115]), (120009, [116]), (120010, [117]),
     (120011, [118]), (120012, [119]), (120013, [120]), (120014, [121]), (120015, [122]),
     (120016, [65]), (120017, [66]), (120018, [67]), (120019, [68]), (120020, [69]),
     (120021, [70]), (120022, [71]), (120023, [72]), (120024, [73]), (120025, [74]),
     (120026, [75]), (120027, [76]), (120028, [77]), (120029, [78]), (120030, [79]),
     (120031, [80]), (120032, [81]), (120033, [82]), (120034, [83]), (120035, [84]),
     (120036, [85]), (120037, [86]), (120038, [87]), (120039, [88]), (120040, [89]),
     (120041, [90]), (120042, [97]), (120043, [98]), (120044, [99]), (120045, [100]),
     (120046, [101]), (120047, [102]), (120048, [103]), (120049, [104]), (120050, [105]),
     (120051, [106]), (120052, [107]), (120053, [108]), (120054, [109]), (120055, [110]),
     (120056, [111]), (120057, [112]), (120058, [113]), (120059, [114]), (120060, [115]),
     (120061, [116]), (120062, [117]), (120063, [118]), (120064, [119]), (120065, [120]),
     (120066, [121]), (120067, [122]), (120068, [65]), (120069, [66]), (120071, [68]),
     (120072, [69]), (120073, [70]), (120074, [71]), (120077, [74]), (120078, [75]),
     (120079, [76]), (120080, [77]), (120081, [78]), (120082, [79]), (120083, [80]),
     (120084, [81]), (120086, [83]), (120087, [84]), (120088, [85]), (120089, [86]),
     (120090, [87]), (120091, [88]), (120092, [89]), (120094, [97]), (120095, [98]),
     (120096, [99]), (120097, [100]), (120098, [101]), (120099, [102]), (120100, [103]),
     (120101, [104]), (120102, [105]), (120103, [106]), (120104, [107]), (120105, [108]),
     (120106, [109]), (120107, [110]), (120108, [111]), (120109, [112]), (120110, [113]),
     (120111, [114]), (120112, [115]), (120113, [116]), (120114, [117]), (120115, [118]),
     (120116, [119]), (120117, [120]), (120118, [121]), (120119, [122]), (120120, [65]),
     (120121, [66]), (120123, [68]), (120124, [69]), (120125, [70]), (120126, [71]),
     (120128, [73]), (120129, [74]), (120130, [75]), (120131, [76]), (120132, [77]),
     (120134, [79]), (120138, [83]), (120139, [84]), (120140, [85]), (120141, [86]),
     (120142, [87]), (120143, [88]), (120144, [89]), (120146, [97]), (120147, [98]),
     (120148, [99]), (120149, [100]), (120150, [101]), (120151, [102]), (120152, [103]),
     (120153, [104]), (120154, [105]), (120155, [106]), (120156, [107]), (120157, [108]),
     (120158, [109]), (120159, [110]), (120160, [111]), (120161, [112]), (120162, [113]),
     (120163, [114]), (120164, [115]), (120165, [116]), (120166, [117]), (120167, [118]),
     (120168, [119]), (120169, [120]), (120170, [121]), (120171, [122]), (120172, [65]),
     (120173, [66]), (120174, [67]), (120175, [68]), (120176, [69]), (120177, [70]),
     (120178, [71]), (120179, [72]), (120180, [73]), (120181, [74]), (120182, [75]),
     (120183, [76]), (120184, [77]), (120185, [78]), (120186, [79]), (120187, [80]),
     (120188, [81]), (120189, [82]), (120190, [83]), (120191, [84]), (120192, [85]),
     (120193, [86]), (120194, [87]), (120195, [88])]"

definition nfkd_ascii_part9 :: "(nat \<times> pystr) list" where
  "nfkd_ascii_part9 =
    [(120196, [89]), (120197, [90]), (120198, [97]), (120199, [98]), (120200, [99]),
     (120201, [100]), (120202, [101]), (120203, [102]), (120204, [103]), (120205, [104]),
     (120206, [105]), (120207, [106]), (120208, [107]), (120209, [108]), (120210, [109]),
     (120211, [110]), (120212, [111]), (120213, [112]), (120214, [113]), (120215, [114]),
     (120216, [115]), (120217, [116]), (120218, [117]), (120219, [118]), (120220, [119]),
     (120221, [120]), (120222, [121]), (120223, [122]), (120224, [65]), (120225, [66]),
     (120226, [67]), (120227, [68]), (120228, [69]), (120229, [70]), (120230, [71]),
     (120231, [72]), (120232, [73]), (120233, [74]), (120234, [75]), (120235, [76]),
     (120236, [77]), (120237, [78]), (120238, [79]), (120239, [80]), (120240, [81]),
     (120241, [82]), (120242, [83]), (120243, [84]), (120244, [85]), (120245, [86]),
     (120246, [87]), (120247, [88]), (120248, [89]), (120249, [90]), (120250, [97]),
     (120251, [98]), (120252, [99]), (120253, [100]), (120254, [101]), (120255, [102]),
     (120256, [103]), (120257, [104]), (120258, [105]), (120259, [106]), (120260, [107]),
     (120261, [108]), (120262, [109]), (120263, [110]), (120264, [111]), (120265, [112]),
     (120266, [113]), (120267, [114]), (120268, [115]), (120269, [116]), (120270, [117]),
     (120271, [118]), (120272, [119]), (120273, [120]), (120274, [121]), (120275, [122]),
     (120276, [65]), (120277, [66]), (120278, [67]), (120279, [68]), (120280, [69]),
     (120281, [70]), (120282, [71]), (120283, [72]), (120284, [73]), (120285, [74]),
     (120286, [75]), (120287, [76]), (120288, [77]), (120289, [78]), (120290, [79]),
     (120291, [80]), (120292, [81]), (120293, [82]), (120294, [83]), (120295, [84]),
     (120296, [85]), (120297, [86]), (120298, [87]), (120299, [88]), (120300, [89]),
     (120301, [90]), (120302, [97]), (120303, [98]), (120304, [99]), (120305, [100]),
     (120306, [101]), (120307, [102]), (120308, [103]), (120309, [104]), (120310, [105]),
     (120311, [106]), (120312, [107]), (120313, [108]), (120314, [109]), (120315, [110]),
     (120316, [111]), (120317, [112]), (120318, [113]), (120319, [114]), (120320, [115]),
     (120321, [116]), (120322, [117]), (120323, [118]), (120324, [119]), (120325, [120]),
     (120326, [121]), (120327, [122]), (120328, [65]), (120329, [66]), (120330, [67]),
     (120331, [68]), (120332, [69]), (120333, [70]), (120334, [71]), (120335, [72]),
     (120336, [73]), (120337, [74]), (120338, [75]), (120339, [76]), (120340, [77]),
     (120341, [78]), (120342, [79]), (120343, [80]), (120344, [81]), (120345, [82]),
     (120346, [83]), (120347, [84]), (120348, [85]), (120349, [86]), (120350, [87]),
     (120351, [88]), (120352, [89]), (120353, [90]), (120354, [97]), (120355, [98]),
     (120356, [99]), (120357, [100]), (120358, [101]), (120359, [102]), (120360, [103]),
     (120361, [104]), (120362, [105]), (120363, [106]), (120364, [107]), (120365, [108]),
     (120366, [109]), (120367, [110]), (120368, [111]), (120369, [112]), (120370, [113]),
     (120371, [114]), (120372, [115]), (120373, [116]), (120374, [117]), (120375, [118]),
     (120376, [119]), (120377, [120]), (120378, [121]), (120379, [122]), (120380, [65]),
     (120381, [66]), (120382, [67]), (120383, [68]), (120384, [69]), (120385, [70]),
     (120386, [71]), (120387, [72]), (120388, [73]), (120389, [74]), (120390, [75]),
     (120391, [76]), (120392, [77]), (120393, [78]), (120394, [79]), (120395, [80]),
     (120396, [81]), (120397, [82]), (120398, [83]), (120399, [84]), (120400, [85]),
     (120401, [86]), (120402, [87]), (120403, [88]), (120404, [89]), (120405, [90]),
     (120406, [97]), (120407, [98]), (120408, [99])]"

definition nfkd_ascii_part10 :: "(nat \<times> pystr) list" where
  "nfkd_ascii_part10 =
    [(120409, [100]), (120410, [101]), (120411, [102]), (120412, [103]), (120413, [104]),
     (120414, [105]), (120415, [106]), (120416, [107]), (120417, [108]), (120418, [109]),
     (120419, [110]), (120420, [111]), (120421, [112]), (120422, [113]), (120423, [114]),
     (120424, [115]), (120425, [116]), (120426, [117]), (120427, [118]), (120428, [119]),
     (120429, [120]), (120430, [121]), (120431, [122]), (120432, [65]), (120433, [66]),
     (120434, [67]), (120435, [68]), (120436, [69]), (120437, [70]), (120438, [71]),
     (120439, [72]), (120440, [73]), (120441, [74]), (120442, [75]), (120443, [76]),
     (120444, [77]), (120445, [78]), (120446, [79]), (120447, [80]), (120448, [81]),
     (120449, [82]), (120450, [83]), (120451, [84]), (120452, [85]), (120453, [86]),
     (120454, [87]), (120455, [88]), (120456, [89]), (120457, [90]), (120458, [97]),
     (120459, [98]), (120460, [99]), (120461, [100]), (120462, [101]), (120463, [102]),
     (120464, [103]), (120465, [104]), (120466, [105]), (120467, [106]), (120468, [107]),
     (120469, [108]), (120470, [109]), (120471, [110]), (120472, [111]), (120473, [112]),
     (120474, [113]), (120475, [114]), (120476, [115]), (120477, [116]), (120478, [117]),
     (120479, [118]), (120480, [119]), (120481, [120]), (120482, [121]), (120483, [122]),
     (120782, [48]), (120783, [49]), (120784, [50]), (120785, [51]), (120786, [52]),
     (120787, [53]), (120788, [54]), (120789, [55]), (120790, [56]), (120791, [57]),
     (120792, [48]), (120793, [49]), (120794, [50]), (120795, [51]), (120796, [52]),
     (120797, [53]), (120798, [54]), (120799, [55]), (120800, [56]), (120801, [57]),
     (120802, [48]), (120803, [49]), (120804, [50]), (120805, [51]), (120806, [52]),
     (120807, [53]), (120808, [54]), (120809, [55]), (120810, [56]), (120811, [57]),
     (120812, [48]), (120813, [49]), (120814, [50]), (120815, [51]), (120816, [52]),
     (120817, [53]), (120818, [54]), (120819, [55]), (120820, [56]), (120821, [57]),
     (120822, [48]), (120823, [49]), (120824, [50]), (120825, [51]), (120826, [52]),
     (120827, [53]), (120828, [54]), (120829, [55]), (120830, [56]), (120831, [57]),
     (127232, [48, 46]), (127233, [48, 44]), (127234, [49, 44]), (127235, [50, 44]),
     (127236, [51, 44]), (127237, [52, 44]), (127238, [53, 44]), (127239, [54, 44]),
     (127240, [55, 44]), (127241, [56, 44]), (127242, [57, 44]), (127248, [40, 65, 41]),
     (127249, [40, 66, 41]), (127250, [40, 67, 41]), (127251, [40, 68, 41]),
     (127252, [40, 69, 41]), (127253, [40, 70, 41]), (127254, [40, 71, 41]),
     (127255, [40, 72, 41]), (127256, [40, 73, 41]), (127257, [40, 74, 41]),
     (127258, [40, 75, 41]), (127259, [40, 76, 41]), (127260, [40, 77, 41]),
     (127261, [40, 78, 41]), (127262, [40, 79, 41]), (127263, [40, 80, 41]),
     (127264, [40, 81, 41]), (127265, [40, 82, 41]), (127266, [40, 83, 41]),
     (127267, [40, 84, 41]), (127268, [40, 85, 41]), (127269, [40, 86, 41]),
     (127270, [40, 87, 41]), (127271, [40, 88, 41]), (127272, [40, 89, 41]),
     (127273, [40, 90, 41]), (127274, [83]), (127275, [67]), (127276, [82]),
     (127277, [67, 68]), (127278, [87, 90]), (127280, [65]), (127281, [66]), (127282, [67]),
     (127283, [68]), (127284, [69]), (127285, [70]), (127286, [71]), (127287, [72]),
     (127288, [73]), (127289, [74]), (127290, [75]), (127291, [76]), (127292, [77]),
     (127293, [78]), (127294, [79]), (127295, [80]), (127296, [81]), (127297, [82]),
     (127298, [83]), (127299, [84]), (127300, [85]), (127301, [86]), (127302, [87]),
     (127303, [88]), (127304, [89]), (127305, [90]), (127306, [72, 86]), (127307, [77, 86]),
     (127308, [83, 68]), (127309, [83, 83]), (127310, [80, 80, 86]), (127311, [87, 67]),
     (127338, [77, 67]), (127339, [77, 68]), (127340, [77, 82]), (127376, [68, 74]),
     (130032, [48]), (130033, [49]), (130034, [50]), (130035, [51]), (130036, [52]),
     (130037, [53]), (130038, [54]), (130039, [55]), (130040, [56]), (130041, [57])]"

definition nfkd_ascii_table :: "(nat \<times> pystr) list" where
  "nfkd_ascii_table =
     concat [nfkd_ascii_part1, nfkd_ascii_part2, nfkd_ascii_part3, nfkd_ascii_part4, nfkd_ascii_part5,
             nfkd_ascii_part6, nfkd_ascii_part7, nfkd_ascii_part8, nfkd_ascii_part9, nfkd_ascii_part10]"

definition nfkd_ascii :: "nat \<Rightarrow> pystr" where
  "nfkd_ascii c =
     (if c < 128 then [c]
      else (case map_of nfkd_ascii_table c of None \<Rightarrow> [] | Some a \<Rightarrow> a))"

fun split_whitespace :: "pystr \<Rightarrow> pystr \<Rightarrow> pystr list" where
  "split_whitespace piece [] = (if piece = [] then [] else [rev piece])"
| "split_whitespace piece (c # cs) =
     (if py_isspace c then
        (if piece = [] then split_whitespace [] cs else rev piece # split_whitespace [] cs)
      else split_whitespace (c # piece) cs)"

definition filename_char :: "nat \<Rightarrow> bool" where
  "filename_char c =
     ((65 \<le> c \<and> c \<le> 90) \<or> (97 \<le> c \<and> c \<le> 122) \<or> (48 \<le> c \<and> c \<le> 57)
      \<or> c = 95 \<or> c = 46 \<or> c = 45)"

definition posix_secure_filename :: "pystr \<Rightarrow> pystr" where
  "posix_secure_filename filename =
     (let f1 = concat (map nfkd_ascii filename);
          f2 = map (\<lambda>c. if c = 47 then 32 else c) f1;
          f3 = filter filename_char (py_join [95] (split_whitespace [] f2));
          dot_or_underscore = (\<lambda>c. c = 46 \<or> c = 95)
      in rev (dropWhile dot_or_underscore (rev (dropWhile dot_or_underscore f3))))"

text \<open>
  A standard output that encodes to UTF-8: it has every code point but the surrogates.
  \<open>utf8_error_text\<close> is the text of the UnicodeEncodeError for a string whose first run
  of surrogates starts at position \<open>n\<close>, as CPython words it (39 is the apostrophe, 92
  the backslash).
\<close>

function decimal :: "nat \<Rightarrow> pystr" where
  "decimal n = (if n < 10 then [48 + n] else decimal (n div 10) @ [48 + n mod 10])"
  by pat_completeness auto
termination
  by (relation "measure id") auto

definition hex4 :: "nat \<Rightarrow> pystr" where
  "hex4 c =
     map (\<lambda>d. if d < 10 then 48 + d else 87 + d)
       [c div 4096 mod 16, c div 256 mod 16, c div 16 mod 16, c mod 16]"

definition utf8_error_text :: "pystr \<Rightarrow> pystr" where
  "utf8_error_text t =
     (let n = length (takeWhile (\<lambda>c. \<not> is_surrogate c) t);
          run = takeWhile is_surrogate (drop n t);
          codec = [39] @ ascii ''utf-8'' @ [39] @ ascii '' codec can'' @ [39]
      in case run of
           [c] \<Rightarrow>
             codec @ ascii ''t encode character '' @ [39, 92, 117] @ hex4 c @ [39]
               @ ascii '' in position '' @ decimal n @ ascii '': surrogates not allowed''
         | _ \<Rightarrow>
             codec @ ascii ''t encode characters in position '' @ decimal n @ [45]
               @ decimal (n + length run - 1) @ ascii '': surrogates not allowed'')"

text \<open>
  A reader of comma-separated lines (no quoting) that refuses an empty file, an engine
  that echoes a question that is a string, a JSON reader that knows the empty object
  only, a plotter that always succeeds, and numbers stored under their literal.
\<close>

definition example_read_csv :: "bytes \<Rightarrow> exn + pystr list list" where
  "example_read_csv content =
     (if content = [] then Inl (Library_error (ascii ''No columns to parse from file''))
      else Inr (map (\<lambda>line. py_split line [44])
                  (filter (\<lambda>line. line \<noteq> []) (py_split content [10]))))"

definition example_env :: "(pystr list list) env" where
  "example_env =
     \<lparr>json_loads = (\<lambda>t. if t = ascii ''{}'' then Inr (JObject []) else Inl ValueError),
      plot_bar_base64 = (\<lambda>labels vals title. Inr (ascii ''iVBORw0KGgo='')),
      str_of_json = (\<lambda>v. ascii ''Chart''),
      base_dir = ascii ''/app'',
      secure_filename = posix_secure_filename,
      read_csv = example_read_csv,
      get_chat_response =
        (\<lambda>user_input df history.
           case user_input of JString q \<Rightarrow> Inr q | _ \<Rightarrow> Inl (ascii ''no question'')),
      random_rowid = 1,
      stdout_encodes = (\<lambda>c. \<not> is_surrogate c),
      encode_error_text = utf8_error_text,
      number_as_stored = (\<lambda>literal. Some (Some literal))\<rparr>"

text \<open>
  Two requests to \<open>/ask\<close> that do not get past the first lines: the body \<open>[1]\<close>, a list,
  on which \<open>.get\<close> raises AttributeError with the text below, and a message that is the
  lone surrogate U+D800 (\<open>{"message": "\ud800"}\<close>).
\<close>

definition list_has_no_get :: pystr where
  "list_has_no_get =
     [39] @ ascii ''list'' @ [39] @ ascii '' object has no attribute '' @ [39] @ ascii ''get''
       @ [39]"

definition surrogate_message :: json where
  "surrogate_message = JString [55296]"

text \<open>A state with a loaded table and one saved turn, and one with nothing at all.\<close>

definition example_state :: "(pystr list list) state" where
  "example_state =
     \<lparr>stop_execution_flag = False,
      data_cache = Some [[ascii ''name'', ascii ''age''], [ascii ''Ann'', ascii ''31'']],
      chat_history = [(1, (Some (ascii ''hello''), ascii ''hi''))],
      current_file = [(1, ascii ''patients.csv'')],
      files = [ascii ''/app/uploads/patients.csv'' \<mapsto> ascii ''name,age\<newline>Ann,31'']\<rparr>"

definition empty_state :: "(pystr list list) state" where
  "empty_state =
     \<lparr>stop_execution_flag = False, data_cache = None, chat_history = [],
      current_file = [], files = Map.empty\<rparr>"

definition stop_at_first :: schedule where
  "stop_at_first = \<lparr>stop_before_engine = True, stop_during_engine = False, insert_raises = False\<rparr>"

definition stop_at_second :: schedule where
  "stop_at_second = \<lparr>stop_before_engine = False, stop_during_engine = True, insert_raises = False\<rparr>"

definition no_stop :: schedule where
  "no_stop = \<lparr>stop_before_engine = False, stop_during_engine = False, insert_raises = False\<rparr>"

text \<open>
  A first start: nothing in the database, and the seed file where \<open>STATIC_CSV\<close> points.
\<close>

definition fresh_install :: "(pystr list list) state" where
  "fresh_install =
     \<lparr>stop_execution_flag = False, data_cache = None, chat_history = [],
      current_file = [],
      files = [ascii ''/app/uploads/patient_details2.csv'' \<mapsto> ascii ''name,age\<newline>Ann,31'']\<rparr>"

text \<open>Two uploads of the same bytes, one under a name with a blank.\<close>

definition spaced_upload :: "pystr \<times> bytes" where
  "spaced_upload = (ascii ''my data.csv'', ascii ''day,n\<newline>Mon,4'')"

definition plain_upload :: "pystr \<times> bytes" where
  "plain_upload = (ascii ''visits.csv'', ascii ''day,n\<newline>Mon,4'')"

text \<open>A state with a loaded table and an empty log, and a run of requests.\<close>

definition loaded_state :: "(pystr list list) state" where
  "loaded_state = example_state\<lparr>chat_history := []\<rparr>"

definition three_questions :: "request list" where
  "three_questions =
     [Post_ask no_stop (Body (JString (ascii ''first''))), Get_index,
      Post_ask stop_at_second (Body (JString (ascii ''lost''))),
      Post_ask no_stop (Body (JString (ascii ''second'')))]"

text \<open>Two answers of the engine: one with a chart marker and broken JSON after it, one
  with a table and a chart marker.\<close>

definition broken_chart_answer :: pystr where
  "broken_chart_answer = ascii ''Visits per day CHART_DATA: {labels: [Mon, Tue''"

definition table_and_chart_answer :: pystr where
  "table_and_chart_answer = ascii ''<table><tr><td>4</td></tr></table> CHART_DATA: {}''"

lemmas example_defs =
  example_env_def example_state_def empty_state_def stop_at_first_def stop_at_second_def
  no_stop_def fresh_install_def spaced_upload_def plain_upload_def
  loaded_state_def three_questions_def list_has_no_get_def surrogate_message_def

section \<open>Both templates fail to format\<close>

text \<open>
  The style sheets of both templates hold single braces. \<open>format\<close> reads \<open>body {\<close> as the
  start of a replacement field named by the text up to the next colon, a newline
  followed by \<open>font-family\<close>, which is no keyword argument of either call.
\<close>

lemma table_template_format_raises:
  "py_format [(ascii ''response'', r)] table_template
     = Inl (KeyError (ascii ''\<newline>font-family''))"
  by (simp add: table_template_def ascii_def parse_field_def resolve_field_def is_digit_def)

lemma chart_template_format_raises:
  "py_format [(ascii ''title'', t), (ascii ''plot_url'', p)] chart_template
     = Inl (KeyError (ascii ''\<newline>font-family''))"
  by (simp add: chart_template_def ascii_def parse_field_def resolve_field_def is_digit_def)

lemma table_try_raises: "table_try response = Inl (KeyError (ascii ''\<newline>font-family''))"
  by (simp add: table_try_def table_template_format_raises)

lemma chart_try_raises: "\<exists>e. chart_try env response = Inl e"
  by (auto simp: chart_try_def Let_def chart_template_format_raises
      split: sum.splits json.splits)

lemma classify_and_render_falls_back: "classify_and_render env response = response"
  using chart_try_raises [of env response]
  by (auto simp: classify_and_render_def table_try_raises)

section \<open>The renderer\<close>

text \<open>The text between the first chart marker and the next is always there to parse.\<close>

lemma py_split_from_nonempty: "py_split_from sep piece s \<noteq> []"
  by (induction sep piece s rule: py_split_from.induct) auto

lemma py_split_from_two:
  "sep \<noteq> [] \<Longrightarrow> py_in sep s \<Longrightarrow> \<exists>a b rest. py_split_from sep piece s = a # b # rest"
proof (induction sep piece s rule: py_split_from.induct)
  case (1 sep piece)
  then show ?case by simp
next
  case (2 sep piece c cs)
  show ?case
  proof (cases "prefix sep (c # cs)")
    case True
    obtain x xs where "py_split_from sep [] (drop (length sep) (c # cs)) = x # xs"
      using py_split_from_nonempty [of sep "[]" "drop (length sep) (c # cs)"]
      by (cases "py_split_from sep [] (drop (length sep) (c # cs))") auto
    with True 2(3) show ?thesis by simp
  next
    case False
    with 2 show ?thesis by simp
  qed
qed

lemma CHART_MARKER_nonempty: "CHART_MARKER \<noteq> []"
  by (simp add: CHART_MARKER_def ascii_def)

lemma chart_str_defined:
  "py_in CHART_MARKER response \<Longrightarrow> \<exists>cs. chart_str response = Inr cs"
  using py_split_from_two [OF CHART_MARKER_nonempty, of response "[]"]
  by (auto simp: chart_str_def py_split_def)

text \<open>
  C3, at an answer that holds both \<open><table\<close> and \<open>CHART_DATA:\<close>. The table branch is the
  one taken, but formatting the table template raises the KeyError above, the \<open>except\<close>
  falls back, and the payload is the answer as it came: it is not wrapped in the page.
\<close>

theorem table_answer_is_not_wrapped:
  "py_in TABLE_TAG table_and_chart_answer
   \<and> py_in CHART_MARKER table_and_chart_answer
   \<and> table_try table_and_chart_answer = Inl (KeyError (ascii ''\<newline>font-family''))
   \<and> classify_and_render example_env table_and_chart_answer = table_and_chart_answer
   \<and> \<not> py_in (ascii ''<!DOCTYPE html>'') (classify_and_render example_env table_and_chart_answer)"
proof -
  have h1: "py_in TABLE_TAG table_and_chart_answer"
    by (simp add: TABLE_TAG_def table_and_chart_answer_def ascii_def)
  have h2: "py_in CHART_MARKER table_and_chart_answer"
    by (simp add: CHART_MARKER_def table_and_chart_answer_def ascii_def)
  have h3: "\<not> py_in (ascii ''<!DOCTYPE html>'') table_and_chart_answer"
    by (simp add: table_and_chart_answer_def ascii_def)
  show ?thesis
    using h1 h2 h3 by (simp add: classify_and_render_def table_try_raises)
qed

text \<open>
  C4. For an answer with the chart marker and no table tag, when \<open>json.loads\<close> raises on
  the text taken after the marker, the body of the \<open>try\<close> raises that exception and the
  payload is the answer unchanged.
\<close>

theorem chart_bad_json_falls_back:
  assumes "py_in CHART_MARKER response" and "\<not> py_in TABLE_TAG response"
      and "chart_str response = Inr cs" and "json_loads env cs = Inl e"
  shows "chart_try env response = Inl e \<and> classify_and_render env response = response"
proof -
  have raised: "chart_try env response = Inl e"
    using assms(3,4) by (simp add: chart_try_def)
  with assms(1,2) show ?thesis
    by (simp add: classify_and_render_def)
qed

theorem chart_bad_json_falls_back_witness:
  "py_in CHART_MARKER broken_chart_answer
   \<and> \<not> py_in TABLE_TAG broken_chart_answer
   \<and> chart_str broken_chart_answer = Inr (ascii ''{labels: [Mon, Tue'')
   \<and> json_loads example_env (ascii ''{labels: [Mon, Tue'') = Inl ValueError
   \<and> chart_try example_env broken_chart_answer = Inl ValueError
   \<and> classify_and_render example_env broken_chart_answer = broken_chart_answer"
proof -
  have h1: "py_in CHART_MARKER broken_chart_answer"
    by (simp add: CHART_MARKER_def broken_chart_answer_def ascii_def)
  have h2: "\<not> py_in TABLE_TAG broken_chart_answer"
    by (simp add: TABLE_TAG_def broken_chart_answer_def ascii_def)
  have h3: "chart_str broken_chart_answer = Inr (ascii ''{labels: [Mon, Tue'')"
    by (simp add: chart_str_def py_split_def CHART_MARKER_def broken_chart_answer_def ascii_def
        py_strip_def py_isspace_def)
  have h4: "json_loads example_env (ascii ''{labels: [Mon, Tue'') = Inl ValueError"
    by (simp add: example_env_def ascii_def)
  show ?thesis
    using h1 h2 h3 h4 chart_bad_json_falls_back [OF h1 h2 h3 h4] by simp
qed

text \<open>
  C9. Classifying and rendering the same answer twice gives the same payload, whatever
  the collaborators (the JSON reader, the plotting library) do at either call.
\<close>

theorem classify_and_render_deterministic:
  "classify_and_render env response = classify_and_render env' response"
  by (simp add: classify_and_render_falls_back)

section \<open>Printing, and asking in the example environment\<close>

text \<open>A text of ASCII can be printed; so can the lines that \<open>ask\<close> prints of such a text.\<close>

lemma can_print_ascii: "list_all (\<lambda>c. c < 128) t \<Longrightarrow> can_print env t"
  by (induction t) (auto simp: can_print_def)

lemma hi_lines:
  "can_print example_env (received_line example_env (JString (ascii ''hi'')))"
  "can_print example_env (preview_line (ascii ''hi''))"
  by (rule can_print_ascii, simp add: received_line_def preview_line_def format_arg_def ascii_def)+

lemma example_engine_echo:
  "get_chat_response example_env (JString q) df h = Inr q"
  by (simp add: example_env_def)

lemma example_state_cache:
  "data_cache example_state = Some [[ascii ''name'', ascii ''age''], [ascii ''Ann'', ascii ''31'']]"
  by (simp add: example_state_def)

lemma ascii_question_lines:
  assumes "list_all (\<lambda>c. c < 128) q"
  shows "can_print env (received_line env (JString q))"
    and "can_print env (preview_line q)"
    and "\<not> list_ex is_surrogate q"
proof -
  have pre: "list_all (\<lambda>c. c < 128) (ascii ''[DEBUG] Received request: '')"
    "list_all (\<lambda>c. c < 128) (ascii ''[DEBUG] Response preview: '')"
    "list_all (\<lambda>c. c < 128) (ascii ''...'')"
    by (simp_all add: ascii_def)
  have tk: "list_all (\<lambda>c. c < 128) (take 200 q)"
    using assms by (auto simp: list_all_iff dest: in_set_takeD)
  show "can_print env (received_line env (JString q))"
    using assms pre(1) by (intro can_print_ascii) (simp add: received_line_def format_arg_def)
  show "can_print env (preview_line q)"
    using tk pre(2,3) by (intro can_print_ascii) (simp add: preview_line_def)
  show "\<not> list_ex is_surrogate q"
    using assms by (auto simp: list_ex_iff list_all_iff is_surrogate_def)
qed

lemma example_ask_saves:
  assumes "data_cache s \<noteq> None" and "list_all (\<lambda>c. c < 128) q"
  shows "state_of (ask example_env no_stop s (Body (JString q)))
           = s\<lparr>stop_execution_flag := False,
                chat_history := sql_insert 1 (Some q, q) (chat_history s)\<rparr>"
    and "saved_turns (ask example_env no_stop s (Body (JString q))) = [(Some q, q)]"
proof -
  from assms(1) obtain df where df: "data_cache s = Some df" by auto
  have row: "inserted_row example_env no_stop (JString q) q = Some (Some q, q)"
    using ascii_question_lines(3) [OF assms(2)]
    by (simp add: inserted_row_def stored_message_def no_stop_def)
  have rnd: "random_rowid example_env = 1" by (simp add: example_env_def)
  have sch: "\<not> stop_before_engine no_stop" "\<not> stop_during_engine no_stop"
    by (simp_all add: no_stop_def)
  show "state_of (ask example_env no_stop s (Body (JString q)))
           = s\<lparr>stop_execution_flag := False,
                chat_history := sql_insert 1 (Some q, q) (chat_history s)\<rparr>"
    using df ascii_question_lines(1,2) [OF assms(2), of example_env] row sch
    by (simp add: ask_def Let_def example_engine_echo rnd)
  show "saved_turns (ask example_env no_stop s (Body (JString q))) = [(Some q, q)]"
    using df ascii_question_lines(1,2) [OF assms(2), of example_env] row sch
    by (simp add: ask_def Let_def example_engine_echo)
qed

lemma example_ask_stopped:
  assumes "data_cache s \<noteq> None" and "list_all (\<lambda>c. c < 128) q"
  shows "state_of (ask example_env stop_at_second s (Body (JString q)))
           = s\<lparr>stop_execution_flag := True\<rparr>"
    and "saved_turns (ask example_env stop_at_second s (Body (JString q))) = []"
proof -
  from assms(1) obtain df where df: "data_cache s = Some df" by auto
  have sch: "\<not> stop_before_engine stop_at_second" "stop_during_engine stop_at_second"
    by (simp_all add: stop_at_second_def)
  show "state_of (ask example_env stop_at_second s (Body (JString q)))
           = s\<lparr>stop_execution_flag := True\<rparr>"
    using df ascii_question_lines(1,2) [OF assms(2), of example_env] sch
    by (simp add: ask_def Let_def example_engine_echo stop_execution_def)
  show "saved_turns (ask example_env stop_at_second s (Body (JString q))) = []"
    using df ascii_question_lines(1,2) [OF assms(2), of example_env] sch
    by (simp add: ask_def Let_def example_engine_echo stop_execution_def)
qed

section \<open>The cancel flag\<close>

text \<open>
  C1. When the cancel flag is read as set at a checkpoint of an \<open>/ask\<close> request (the
  first, before the engine is called, or the second, after it has returned), the reply
  is \<open>{'status': 'stopped', 'response': None}\<close>, and the request leaves the rows of
  \<open>chat_history\<close> as they were: nothing is inserted.
\<close>

theorem ask_stopped_keeps_log:
  assumes "True \<in> set (flag_reads (ask env sch s req))"
  shows "reply_of (ask env sch s req) = Json_stopped
       \<and> chat_history (state_of (ask env sch s req)) = chat_history s
       \<and> saved_turns (ask env sch s req) = []"
  using assms
  by (auto simp: ask_def Let_def stop_execution_def
      split: ask_request.splits option.splits sum.splits if_splits)

theorem ask_stopped_keeps_log_witness:
  "True \<in> set (flag_reads (ask example_env stop_at_first example_state (Body (JString (ascii ''hi'')))))
   \<and> reply_of (ask example_env stop_at_first example_state (Body (JString (ascii ''hi'')))) = Json_stopped
   \<and> chat_history (state_of (ask example_env stop_at_first example_state (Body (JString (ascii ''hi'')))))
       = chat_history example_state
   \<and> True \<in> set (flag_reads (ask example_env stop_at_second example_state (Body (JString (ascii ''hi'')))))
   \<and> reply_of (ask example_env stop_at_second example_state (Body (JString (ascii ''hi'')))) = Json_stopped
   \<and> chat_history (state_of (ask example_env stop_at_second example_state (Body (JString (ascii ''hi'')))))
       = chat_history example_state"
proof -
  have h1: "True \<in> set (flag_reads (ask example_env stop_at_first example_state (Body (JString (ascii ''hi'')))))"
    by (simp add: ask_def Let_def hi_lines example_state_cache stop_at_first_def
        stop_execution_def)
  have h2: "True \<in> set (flag_reads (ask example_env stop_at_second example_state (Body (JString (ascii ''hi'')))))"
    by (simp add: ask_def Let_def hi_lines example_state_cache example_engine_echo
        stop_at_second_def stop_execution_def)
  show ?thesis
    using h1 h2 ask_stopped_keeps_log [OF h1] ask_stopped_keeps_log [OF h2] by simp
qed

section \<open>Asking without a dataset\<close>

text \<open>
  C2 as stated fails: with no table in the cache, a request whose body is not a JSON
  object, and a request whose message \<open>sys.stdout\<close> cannot encode, are answered by the
  outer \<open>except\<close> with \<open>Error: ...\<close>, not with the warning.
\<close>

theorem ask_without_data_error_reply:
  "data_cache empty_state = None
   \<and> reply_of (ask example_env no_stop empty_state (Bad_body list_has_no_get))
       = Json_response (ascii ''Error: '' @ list_has_no_get)
   \<and> reply_of (ask example_env no_stop empty_state (Bad_body list_has_no_get))
       \<noteq> Json_response NO_DATA_WARNING
   \<and> reply_of (ask example_env no_stop empty_state (Body surrogate_message))
       = Json_response
           (ascii ''Error: '' @ [39] @ ascii ''utf-8'' @ [39] @ ascii '' codec can'' @ [39]
            @ ascii ''t encode character '' @ [39, 92] @ ascii ''ud800'' @ [39]
            @ ascii '' in position 26: surrogates not allowed'')
   \<and> reply_of (ask example_env no_stop empty_state (Body surrogate_message))
       \<noteq> Json_response NO_DATA_WARNING"
proof -
  have h1: "data_cache empty_state = None" by (simp add: empty_state_def)
  have p1: "can_print example_env (ascii ''[ERROR] Unhandled exception in /ask: '' @ list_has_no_get)"
    by (rule can_print_ascii) (simp add: list_has_no_get_def ascii_def)
  have r1: "reply_of (ask example_env no_stop empty_state (Bad_body list_has_no_get))
              = Json_response (ascii ''Error: '' @ list_has_no_get)"
    using p1 by (simp add: ask_def unhandled_exception_def)
  have rl: "received_line example_env surrogate_message
                = ascii ''[DEBUG] Received request: '' @ [55296]"
    by (simp add: received_line_def surrogate_message_def format_arg_def)
  have p2: "\<not> can_print example_env (received_line example_env surrogate_message)"
    unfolding rl by (simp add: can_print_def example_env_def is_surrogate_def)
  have et: "encode_error_text example_env (received_line example_env surrogate_message)
               = [39] @ ascii ''utf-8'' @ [39] @ ascii '' codec can'' @ [39]
                 @ ascii ''t encode character '' @ [39, 92] @ ascii ''ud800'' @ [39]
                 @ ascii '' in position 26: surrogates not allowed''"
    unfolding rl
    by (simp add: example_env_def utf8_error_text_def is_surrogate_def hex4_def ascii_def
        Let_def)
  have p3: "can_print example_env
              (ascii ''[ERROR] Unhandled exception in /ask: ''
               @ encode_error_text example_env (received_line example_env surrogate_message))"
    unfolding et by (rule can_print_ascii) (simp add: ascii_def)
  have r2: "reply_of (ask example_env no_stop empty_state (Body surrogate_message))
              = Json_response
                  (ascii ''Error: ''
                   @ encode_error_text example_env (received_line example_env surrogate_message))"
    using p2 p3 by (simp add: ask_def unhandled_exception_def)
  have d1: "ascii ''Error: '' @ list_has_no_get \<noteq> NO_DATA_WARNING"
    by (simp add: NO_DATA_WARNING_def ascii_def)
  have d2: "ascii ''Error: '' @ [39] @ ascii ''utf-8'' @ [39] @ ascii '' codec can'' @ [39]
            @ ascii ''t encode character '' @ [39, 92] @ ascii ''ud800'' @ [39]
            @ ascii '' in position 26: surrogates not allowed'' \<noteq> NO_DATA_WARNING"
    by (simp add: NO_DATA_WARNING_def ascii_def)
  show ?thesis
    using h1 r1 r2 d1 d2 unfolding et by simp
qed

text \<open>
  C2, amended. An \<open>/ask\<close> request served while \<open>data_cache\<close> is \<open>None\<close> is answered with the
  fixed warning when its body is a JSON object and the line that logs its message can
  be printed; and whatever the request, the engine is not called.
\<close>

theorem ask_without_data:
  assumes "data_cache s = None" and "can_print env (received_line env m)"
  shows "reply_of (ask env sch s (Body m)) = Json_response NO_DATA_WARNING
       \<and> engine_calls (ask env sch s req) = []"
proof -
  have "engine_calls (ask env sch s req) = []"
    using assms(1) by (cases req) (simp_all add: ask_def Let_def)
  with assms show ?thesis by (simp add: ask_def Let_def)
qed

theorem ask_without_data_witness:
  "data_cache empty_state = None
   \<and> can_print example_env (received_line example_env (JString (ascii ''How many patients?'')))
   \<and> reply_of (ask example_env no_stop empty_state (Body (JString (ascii ''How many patients?''))))
       = Json_response NO_DATA_WARNING
   \<and> engine_calls (ask example_env no_stop empty_state (Body (JString (ascii ''How many patients?'')))) = []"
proof -
  have h: "data_cache empty_state = None" by (simp add: empty_state_def)
  have p: "can_print example_env (received_line example_env (JString (ascii ''How many patients?'')))"
    by (rule can_print_ascii) (simp add: received_line_def format_arg_def ascii_def)
  show ?thesis
    using h p
      ask_without_data [OF h p, of no_stop "Body (JString (ascii ''How many patients?''))"]
    by simp
qed

section \<open>Uploads\<close>

text \<open>
  C10. An \<open>/upload\<close> request without a \<open>file\<close> field, or whose file name has no dot or an
  extension other than \<open>csv\<close> and \<open>db\<close>, changes nothing (the pointer, the cache, the
  log and the files are in the one state, which is returned as it was) and is answered
  with the redirect to the index page.
\<close>

theorem upload_rejected_is_noop:
  assumes "file_field = None
         \<or> (\<exists>name content. file_field = Some (name, content)
              \<and> (46 \<notin> set name \<or> py_lower (after_last_dot name) \<notin> ALLOWED_EXTENSIONS))"
  shows "upload_file env s file_field = (Redirect_index, s)"
  using assms by (auto simp: upload_file_def allowed_file_def)

theorem upload_rejected_is_noop_witness:
  "upload_file example_env example_state None = (Redirect_index, example_state)
   \<and> 46 \<notin> set (ascii ''notes'')
   \<and> upload_file example_env example_state (Some (ascii ''notes'', ascii ''a,b'')) = (Redirect_index, example_state)
   \<and> py_lower (after_last_dot (ascii ''report.PDF'')) \<notin> ALLOWED_EXTENSIONS
   \<and> upload_file example_env example_state (Some (ascii ''report.PDF'', ascii ''a,b'')) = (Redirect_index, example_state)"
proof -
  have h1: "46 \<notin> set (ascii ''notes'')"
    by (simp add: ascii_def)
  have h2: "py_lower (after_last_dot (ascii ''report.PDF'')) \<notin> ALLOWED_EXTENSIONS"
    by (simp add: ascii_def after_last_dot_def py_lower_def ALLOWED_EXTENSIONS_def)
  show ?thesis
    using h1 h2
      upload_rejected_is_noop [of "None" example_env example_state]
      upload_rejected_is_noop [of "Some (ascii ''notes'', ascii ''a,b'')" example_env example_state]
      upload_rejected_is_noop [of "Some (ascii ''report.PDF'', ascii ''a,b'')" example_env example_state]
    by simp
qed

text \<open>
  C6. Whatever the log held before, after an \<open>/upload\<close> of an allowed file that is
  answered with the redirect, \<open>chat_history\<close> is empty.
\<close>

theorem upload_clears_log:
  assumes "allowed_file name"
      and "fst (upload_file env s (Some (name, content))) = Redirect_index"
  shows "chat_history (snd (upload_file env s (Some (name, content)))) = []"
  using assms by (auto simp: upload_file_def allowed_file_def Let_def split: if_splits)

theorem upload_clears_log_witness:
  "allowed_file (ascii ''visits.csv'')
   \<and> chat_history example_state \<noteq> []
   \<and> fst (upload_file example_env example_state (Some (ascii ''visits.csv'', ascii ''day,n\<newline>Mon,4''))) = Redirect_index
   \<and> chat_history (snd (upload_file example_env example_state (Some (ascii ''visits.csv'', ascii ''day,n\<newline>Mon,4'')))) = []"
proof -
  have h1: "allowed_file (ascii ''visits.csv'')"
    by (simp add: allowed_file_def ascii_def after_last_dot_def py_lower_def ALLOWED_EXTENSIONS_def)
  have sf: "posix_secure_filename (ascii ''visits.csv'') = ascii ''visits.csv''"
    by (simp add: posix_secure_filename_def nfkd_ascii_def ascii_def py_isspace_def
      filename_char_def Let_def)
  have h2: "fst (upload_file example_env example_state (Some (ascii ''visits.csv'', ascii ''day,n\<newline>Mon,4''))) = Redirect_index"
    using h1 by (simp add: upload_file_def Let_def example_env_def sf)
  have h3: "chat_history example_state \<noteq> []" by (simp add: example_state_def)
  show ?thesis using h1 h2 h3 upload_clears_log [OF h1 h2] by simp
qed

text \<open>
  C5 as stated fails: the pointer is set to the name \<open>secure_filename\<close> returns, which
  differs from the name of the uploaded file as soon as that name holds, say, a blank.
\<close>

lemma get_current_file_set:
  "get_current_file (set_current_file env filename s) = Some filename"
  by (simp add: get_current_file_def set_current_file_def sql_select_last_def sql_insert_def
      new_rowid_def)

lemma upload_file_accepted:
  assumes "allowed_file name"
      and "read_csv env content = Inr df"
      and "fst (upload_file env s (Some (name, content))) = Redirect_index"
  shows "get_current_file (snd (upload_file env s (Some (name, content))))
           = Some (secure_filename env name)
       \<and> data_cache (snd (upload_file env s (Some (name, content)))) = Some df
       \<and> files (snd (upload_file env s (Some (name, content))))
           (path_join (UPLOAD_FOLDER env) (secure_filename env name)) = Some content"
proof -
  from assms(1) have ne: "name \<noteq> []" by (auto simp: allowed_file_def)
  from assms(3) ne assms(1) have sn: "secure_filename env name \<noteq> []"
    by (auto simp: upload_file_def Let_def split: if_splits)
  let ?s1 = "s\<lparr>files := (files s)(path_join (UPLOAD_FOLDER env) (secure_filename env name) \<mapsto> content)\<rparr>"
  let ?s2 = "set_current_file env (secure_filename env name) ?s1"
  have up: "snd (upload_file env s (Some (name, content))) = (load_data env ?s2)\<lparr>chat_history := []\<rparr>"
    using ne assms(1) sn by (simp add: upload_file_def Let_def)
  have cur: "get_current_file ?s2 = Some (secure_filename env name)"
    by (rule get_current_file_set)
  have fl: "files ?s2 (path_join (UPLOAD_FOLDER env) (secure_filename env name)) = Some content"
    by (simp add: set_current_file_def)
  have ld: "load_data env ?s2 = ?s2\<lparr>data_cache := Some df\<rparr>"
    using cur fl sn assms(2) by (simp add: load_data_def)
  have res: "snd (upload_file env s (Some (name, content)))
               = ?s2\<lparr>data_cache := Some df, chat_history := []\<rparr>"
    by (simp only: up ld)
  show ?thesis
    using cur fl unfolding res by (simp add: get_current_file_def)
qed

lemma example_read_csv_rows:
  "example_read_csv (ascii ''day,n\<newline>Mon,4'')
     = Inr [[ascii ''day'', ascii ''n''], [ascii ''Mon'', ascii ''4'']]"
  by (simp add: example_read_csv_def py_split_def ascii_def)

lemma secure_spaced: "posix_secure_filename (ascii ''my data.csv'') = ascii ''my_data.csv''"
  by (simp add: posix_secure_filename_def nfkd_ascii_def ascii_def py_isspace_def
      filename_char_def Let_def)

lemma secure_plain: "posix_secure_filename (ascii ''visits.csv'') = ascii ''visits.csv''"
  by (simp add: posix_secure_filename_def nfkd_ascii_def ascii_def py_isspace_def
      filename_char_def Let_def)

lemma allowed_spaced: "allowed_file (ascii ''my data.csv'')"
  by (simp add: allowed_file_def ascii_def after_last_dot_def py_lower_def ALLOWED_EXTENSIONS_def)

lemma allowed_plain: "allowed_file (ascii ''visits.csv'')"
  by (simp add: allowed_file_def ascii_def after_last_dot_def py_lower_def ALLOWED_EXTENSIONS_def)

theorem upload_pointer_is_sanitised_name:
  "allowed_file (fst spaced_upload)
   \<and> read_csv example_env (snd spaced_upload)
       = Inr [[ascii ''day'', ascii ''n''], [ascii ''Mon'', ascii ''4'']]
   \<and> fst (upload_file example_env example_state (Some spaced_upload)) = Redirect_index
   \<and> get_current_file (snd (upload_file example_env example_state (Some spaced_upload)))
       = Some (ascii ''my_data.csv'')
   \<and> get_current_file (snd (upload_file example_env example_state (Some spaced_upload)))
       \<noteq> Some (fst spaced_upload)"
proof -
  have sf: "secure_filename example_env (ascii ''my data.csv'') = ascii ''my_data.csv''"
    by (simp add: example_env_def secure_spaced)
  have rc: "read_csv example_env (ascii ''day,n\<newline>Mon,4'')
              = Inr [[ascii ''day'', ascii ''n''], [ascii ''Mon'', ascii ''4'']]"
    by (simp add: example_env_def example_read_csv_rows)
  have ne: "ascii ''my_data.csv'' \<noteq> []" "ascii ''my data.csv'' \<noteq> []"
    by (simp_all add: ascii_def)
  have rd: "fst (upload_file example_env example_state (Some spaced_upload)) = Redirect_index"
    using allowed_spaced ne by (simp add: upload_file_def spaced_upload_def Let_def sf)
  have ptr: "get_current_file (snd (upload_file example_env example_state (Some spaced_upload)))
               = Some (secure_filename example_env (ascii ''my data.csv''))"
    using upload_file_accepted [OF allowed_spaced rc, of example_state] rd
    by (simp add: spaced_upload_def)
  have diff: "ascii ''my_data.csv'' \<noteq> ascii ''my data.csv''"
    by (simp add: ascii_def)
  show ?thesis
    using allowed_spaced rc rd ptr diff by (simp add: spaced_upload_def sf)
qed

text \<open>
  C5, amended. After an \<open>/upload\<close> of a file with an allowed extension whose bytes
  \<open>read_csv\<close> parses, answered with the redirect, \<open>get_current_file()\<close> is the sanitised
  name \<open>secure_filename(file.filename)\<close>, the file is stored under that name in the
  upload folder, and the cache holds the table parsed from the uploaded bytes.
\<close>

theorem upload_sets_pointer_and_cache:
  assumes "allowed_file name"
      and "read_csv env content = Inr df"
      and "fst (upload_file env s (Some (name, content))) = Redirect_index"
  shows "get_current_file (snd (upload_file env s (Some (name, content))))
           = Some (secure_filename env name)
       \<and> data_cache (snd (upload_file env s (Some (name, content)))) = Some df
       \<and> files (snd (upload_file env s (Some (name, content))))
           (path_join (UPLOAD_FOLDER env) (secure_filename env name)) = Some content"
  using assms by (rule upload_file_accepted)

theorem upload_sets_pointer_and_cache_witness:
  "allowed_file (fst plain_upload)
   \<and> read_csv example_env (snd plain_upload)
       = Inr [[ascii ''day'', ascii ''n''], [ascii ''Mon'', ascii ''4'']]
   \<and> fst (upload_file example_env example_state (Some plain_upload)) = Redirect_index
   \<and> get_current_file (snd (upload_file example_env example_state (Some plain_upload)))
       = Some (ascii ''visits.csv'')
   \<and> data_cache (snd (upload_file example_env example_state (Some plain_upload)))
       = Some [[ascii ''day'', ascii ''n''], [ascii ''Mon'', ascii ''4'']]
   \<and> files (snd (upload_file example_env example_state (Some plain_upload)))
        (ascii ''/app/uploads/visits.csv'') = Some (snd plain_upload)"
proof -
  have sf: "secure_filename example_env (ascii ''visits.csv'') = ascii ''visits.csv''"
    by (simp add: example_env_def secure_plain)
  have rc: "read_csv example_env (ascii ''day,n\<newline>Mon,4'')
              = Inr [[ascii ''day'', ascii ''n''], [ascii ''Mon'', ascii ''4'']]"
    by (simp add: example_env_def example_read_csv_rows)
  have ne: "ascii ''visits.csv'' \<noteq> []"
    by (simp add: ascii_def)
  have rd: "fst (upload_file example_env example_state
                  (Some (ascii ''visits.csv'', ascii ''day,n\<newline>Mon,4''))) = Redirect_index"
    using allowed_plain ne by (simp add: upload_file_def Let_def sf)
  have pth: "path_join (UPLOAD_FOLDER example_env) (ascii ''visits.csv'')
               = ascii ''/app/uploads/visits.csv''"
    by (simp add: UPLOAD_FOLDER_def path_join_def example_env_def ascii_def)
  show ?thesis
    using allowed_plain rc rd upload_sets_pointer_and_cache [OF allowed_plain rc rd]
    by (simp add: plain_upload_def sf pth)
qed

section \<open>The seed dataset\<close>

text \<open>
  The destination of the seed copy is the seed file itself: \<open>STATIC_CSV\<close> lies in the
  upload folder, and the destination is the upload folder joined with its base name.
\<close>

lemma basename_path_join:
  assumes "47 \<notin> set b" and "b \<noteq> []"
  shows "basename (path_join a b) = b"
proof -
  from assms have hd: "hd b \<noteq> 47" by (cases b) auto
  have all: "\<forall>c\<in>set (rev b). c \<noteq> 47" using assms(1) by auto
  have stop: "takeWhile (\<lambda>c. c \<noteq> 47) (rev a) = []" if "a \<noteq> []" "last a = 47" for a :: pystr
  proof -
    from that obtain xs where "a = xs @ [47]"
      by (metis append_butlast_last_id)
    then show ?thesis by auto
  qed
  have tw: "takeWhile (\<lambda>c. c \<noteq> 47) (rev b @ ys) = rev b @ takeWhile (\<lambda>c. c \<noteq> 47) ys"
    for ys
    using assms(1) by (intro takeWhile_append2) auto
  show ?thesis
  proof (cases "a = []")
    case True
    have "takeWhile (\<lambda>c. c \<noteq> 47) (rev b) = rev b"
      using assms(1) by auto
    then have "basename b = b" by (simp only: basename_def rev_rev_ident)
    with True hd assms(2) show ?thesis by (simp add: path_join_def)
  next
    case False
    show ?thesis
    proof (cases "last a = 47")
      case True
      then show ?thesis
        using hd assms(2) tw [of "rev a"] stop [OF False True] False
        by (simp add: basename_def path_join_def)
    next
      case False
      then show ?thesis
        using hd assms(2) tw [of "47 # rev a"] \<open>a \<noteq> []\<close>
        by (simp add: basename_def path_join_def)
    qed
  qed
qed

lemma seed_destination_is_seed:
  "path_join (UPLOAD_FOLDER env) (basename (STATIC_CSV env)) = STATIC_CSV env"
proof -
  have "basename (STATIC_CSV env) = ascii ''patient_details2.csv''"
    unfolding STATIC_CSV_def
    by (rule basename_path_join) (simp_all add: ascii_def)
  then show ?thesis by (simp add: STATIC_CSV_def UPLOAD_FOLDER_def)
qed

text \<open>So \<open>bootstrap_dataset\<close> either raises \<open>SameFileError\<close> or changes nothing.\<close>

lemma bootstrap_raises_or_skips:
  "bootstrap_dataset env s = Inl SameFileError \<or> bootstrap_dataset env s = Inr s"
  by (auto simp: bootstrap_dataset_def Let_def seed_destination_is_seed shutil_copy_def
      path_exists_def split: option.splits)

lemma STATIC_CSV_example: "STATIC_CSV example_env = ascii ''/app/uploads/patient_details2.csv''"
  by (simp add: STATIC_CSV_def example_env_def path_join_def ascii_def)

text \<open>
  C8, at a first start with the seed file in place. No pointer is set, so the seed is
  needed; \<open>shutil.copy\<close> raises \<open>SameFileError\<close> before \<open>set_current_file\<close> is reached; the
  exception skips \<open>load_data()\<close>; the pointer stays absent and the cache empty.
\<close>

theorem bootstrap_does_not_seed:
  "get_current_file fresh_install = None
   \<and> path_exists fresh_install (STATIC_CSV example_env)
   \<and> bootstrap_dataset example_env fresh_install = Inl SameFileError
   \<and> get_current_file (startup example_env fresh_install) = None
   \<and> data_cache (startup example_env fresh_install) = None"
proof -
  have h1: "get_current_file fresh_install = None"
    by (simp add: get_current_file_def sql_select_last_def fresh_install_def)
  have h2: "path_exists fresh_install (STATIC_CSV example_env)"
    by (simp add: path_exists_def STATIC_CSV_example fresh_install_def)
  have h3: "bootstrap_dataset example_env s = Inl SameFileError"
    if "get_current_file s = None" "path_exists s (STATIC_CSV example_env)" for s
    using that
    by (auto simp: bootstrap_dataset_def Let_def seed_destination_is_seed shutil_copy_def
        path_exists_def)
  have h4: "bootstrap_dataset example_env fresh_install = Inl SameFileError"
    using h3 [OF h1 h2] .
  have h5: "fresh_install\<lparr>stop_execution_flag := False, data_cache := None\<rparr> = fresh_install"
    by (simp add: fresh_install_def)
  show ?thesis
    using h1 h2 h4 by (simp add: startup_def h5) (simp add: fresh_install_def)
qed

section \<open>The conversation log\<close>

text \<open>
  The program writes \<open>chat_history\<close> in two ways only: \<open>ask\<close> inserts a row without an id,
  and \<open>upload_file\<close>, \<open>delete_file\<close> and \<open>clear_chat\<close> delete all rows. A table that starts
  empty therefore keeps the rowids 1, 2, ... in the order of insertion, as long as
  fewer than \<open>2^63 - 1\<close> rows were inserted; a new row is then the last one in the
  B-tree.
\<close>

lemma rowids_sorted: "rowids_from_one t \<Longrightarrow> sorted (map fst t)"
  by (simp add: rowids_from_one_def sorted_map del: upt_Suc)

lemma sort_rowids: "rowids_from_one t \<Longrightarrow> sort_key fst t = t"
  by (rule sort_key_id_if_sorted) (rule rowids_sorted)

lemma rowids_set: "rowids_from_one t \<Longrightarrow> fst ` set t = int ` {1..length t}"
proof -
  assume "rowids_from_one t"
  then have "set (map fst t) = set (map int [1..<Suc (length t)])"
    by (simp only: rowids_from_one_def)
  then show ?thesis by (simp add: atLeastLessThanSuc_atLeastAtMost del: upt_Suc)
qed

lemma rowids_max:
  assumes "rowids_from_one t" and "t \<noteq> []"
  shows "Max (set (map fst t)) = int (length t)"
proof -
  have eq: "set (map fst t) = int ` {1..length t}"
    using rowids_set [OF assms(1)] by simp
  have "Max (int ` {1..length t}) = int (length t)"
  proof (rule Max_eqI)
    show "finite (int ` {1..length t})" by simp
    show "\<And>y. y \<in> int ` {1..length t} \<Longrightarrow> y \<le> int (length t)" by auto
    show "int (length t) \<in> int ` {1..length t}"
      using assms(2) by (auto simp: Suc_le_eq)
  qed
  with eq show ?thesis by simp
qed

lemma insort_key_last:
  "\<forall>x\<in>set t. f x < f a \<Longrightarrow> insort_key f a t = t @ [a]"
  by (induction t) auto

lemma sql_insert_appends:
  assumes "rowids_from_one t" and "int (length t) < 2 ^ 63 - 1"
  shows "sql_insert rnd r t = t @ [(int (length t) + 1, r)]"
proof -
  have nr: "new_rowid rnd t = int (length t) + 1"
  proof (cases "t = []")
    case True
    then show ?thesis by (simp add: new_rowid_def)
  next
    case False
    then show ?thesis
      using rowids_max [OF assms(1) False] assms(2) by (simp add: new_rowid_def)
  qed
  have "\<forall>x\<in>set t. fst x < int (length t) + 1"
  proof
    fix x assume "x \<in> set t"
    then have "fst x \<in> int ` {1..length t}"
      using rowids_set [OF assms(1)] by blast
    then show "fst x < int (length t) + 1" by auto
  qed
  then show ?thesis
    unfolding sql_insert_def nr by (simp add: insort_key_last)
qed

lemma rowids_after_insert:
  assumes "rowids_from_one t" and "int (length t) < 2 ^ 63 - 1"
  shows "rowids_from_one (sql_insert rnd r t)"
  using assms(1) unfolding sql_insert_appends [OF assms] rowids_from_one_def by simp

lemma rowids_empty: "rowids_from_one []"
  by (simp add: rowids_from_one_def)

lemma reads_agree: "rowids_from_one (chat_history s) \<Longrightarrow> index_history s = session_history s"
  by (simp add: index_history_def session_history_def sql_select_all_def
      sql_select_order_by_id_asc_def sort_rowids)

lemma ask_log:
  "chat_history (state_of (ask env sch s req))
     = (case saved_turns (ask env sch s req) of
          [] \<Rightarrow> chat_history s
        | r # _ \<Rightarrow> sql_insert (random_rowid env) r (chat_history s))
   \<and> length (saved_turns (ask env sch s req)) \<le> 1"
proof (cases req)
  case (Bad_body err)
  then show ?thesis by (simp add: ask_def)
next
  case (Body m)
  then show ?thesis
    by (simp add: ask_def Let_def stop_execution_def
        split: option.splits sum.splits)
qed

lemma ask_index_history:
  assumes "rowids_from_one (chat_history s)" and "int (length (chat_history s)) < 2 ^ 63 - 1"
  shows "index_history (state_of (ask env sch s req))
           = index_history s @ saved_turns (ask env sch s req)"
proof (cases "saved_turns (ask env sch s req)")
  case Nil
  then show ?thesis
    using ask_log [of env sch s req] by (simp add: index_history_def)
next
  case (Cons r rs)
  with ask_log [of env sch s req] have "rs = []"
    and "chat_history (state_of (ask env sch s req))
           = sql_insert (random_rowid env) r (chat_history s)"
    by simp_all
  then show ?thesis
    using Cons sql_insert_appends [OF assms]
    by (simp add: index_history_def sql_select_all_def)
qed

lemma ask_rowids:
  assumes "rowids_from_one (chat_history s)" and "int (length (chat_history s)) < 2 ^ 63 - 1"
  shows "rowids_from_one (chat_history (state_of (ask env sch s req)))"
  using rowids_after_insert [OF assms] assms(1) ask_log [of env sch s req]
  by (cases "saved_turns (ask env sch s req)") simp_all

lemma ask_log_length:
  "length (chat_history (state_of (ask env sch s req))) \<le> Suc (length (chat_history s))"
  using ask_log [of env sch s req]
  by (cases "saved_turns (ask env sch s req)") (simp_all add: sql_insert_def)

lemma load_data_log: "chat_history (load_data env s) = chat_history s"
  by (auto simp: load_data_def split: option.splits sum.splits)

lemma other_requests_log:
  "chat_history (snd (stop_execution s)) = chat_history s"
  "chat_history (snd (clear_chat s)) = []"
  "chat_history (snd (delete_file env s)) = chat_history s \<or> chat_history (snd (delete_file env s)) = []"
  "chat_history (snd (upload_file env s f)) = chat_history s \<or> chat_history (snd (upload_file env s f)) = []"
  by (auto simp: stop_execution_def clear_chat_def delete_file_def upload_file_def Let_def
      split: option.splits prod.splits)

lemma serve_log_cases:
  "(\<exists>sch req. r = Post_ask sch req) \<or> chat_history (serve env s r) = chat_history s
     \<or> chat_history (serve env s r) = []"
  using other_requests_log(3) [of env s] other_requests_log(4) [of env s]
  by (cases r) (auto simp: serve_def other_requests_log(1,2))

lemma serve_rowids:
  assumes "rowids_from_one (chat_history s)" and "int (length (chat_history s)) < 2 ^ 63 - 1"
  shows "rowids_from_one (chat_history (serve env s r))"
  using serve_log_cases [of r env s] ask_rowids [OF assms] assms(1) rowids_empty
  by (auto simp: serve_def)

lemma serve_log_length:
  "length (chat_history (serve env s r)) \<le> Suc (length (chat_history s))"
  using serve_log_cases [of r env s] ask_log_length
  by (auto simp: serve_def)

lemma serve_all_rowids:
  "rowids_from_one (chat_history s)
   \<Longrightarrow> int (length (chat_history s)) + int (length rs) < 2 ^ 63
   \<Longrightarrow> rowids_from_one (chat_history (serve_all env s rs))
       \<and> length (chat_history (serve_all env s rs)) \<le> length (chat_history s) + length rs"
proof (induction rs arbitrary: s)
  case Nil
  then show ?case by simp
next
  case (Cons r rs)
  have b: "int (length (chat_history s)) < 2 ^ 63 - 1" using Cons.prems(2) by simp
  have inv: "rowids_from_one (chat_history (serve env s r))"
    using serve_rowids [OF Cons.prems(1) b] .
  have len: "length (chat_history (serve env s r)) \<le> Suc (length (chat_history s))"
    by (rule serve_log_length)
  have "int (length (chat_history (serve env s r))) + int (length rs) < 2 ^ 63"
    using len Cons.prems(2) by simp
  from Cons.IH [OF inv this] len show ?case by simp
qed

lemma serve_index_history:
  assumes "rowids_from_one (chat_history s)" and "int (length (chat_history s)) < 2 ^ 63 - 1"
  shows "index_history (serve env s r) = conversation_after env s r (index_history s)"
proof (cases r)
  case (Post_ask sch req)
  then show ?thesis
    using ask_index_history [OF assms] by (simp add: serve_def conversation_after_def)
next
  case (Post_upload f)
  then show ?thesis
    by (auto simp: serve_def conversation_after_def upload_file_def Let_def index_history_def
        sql_select_all_def split: option.splits)
next
  case Post_delete_file
  then show ?thesis
    by (auto simp: serve_def conversation_after_def delete_file_def Let_def index_history_def
        sql_select_all_def truthy_def split: option.splits)
qed (simp_all add: serve_def conversation_after_def stop_execution_def clear_chat_def
      index_history_def sql_select_all_def)

lemma serve_all_index_history:
  "rowids_from_one (chat_history s)
   \<Longrightarrow> int (length (chat_history s)) + int (length rs) < 2 ^ 63
   \<Longrightarrow> index_history (serve_all env s rs) = conversation env s (index_history s) rs"
proof (induction rs arbitrary: s)
  case Nil
  then show ?case by simp
next
  case (Cons r rs)
  have b: "int (length (chat_history s)) < 2 ^ 63 - 1" using Cons.prems(2) by simp
  have inv: "rowids_from_one (chat_history (serve env s r))"
    using serve_rowids [OF Cons.prems(1) b] .
  have len: "length (chat_history (serve env s r)) \<le> Suc (length (chat_history s))"
    by (rule serve_log_length)
  have "int (length (chat_history (serve env s r))) + int (length rs) < 2 ^ 63"
    using len Cons.prems(2) by simp
  from Cons.IH [OF inv this] serve_index_history [OF Cons.prems(1) b, of env r]
  show ?case by simp
qed

lemma three_questions_conversation:
  "conversation example_env loaded_state [] three_questions
     = [(Some (ascii ''first''), ascii ''first''), (Some (ascii ''second''), ascii ''second'')]"
proof -
  have a: "list_all (\<lambda>c. c < 128) (ascii ''first'')" "list_all (\<lambda>c. c < 128) (ascii ''lost'')"
    "list_all (\<lambda>c. c < 128) (ascii ''second'')"
    by (simp_all add: ascii_def)
  have c: "data_cache loaded_state \<noteq> None"
    by (simp add: loaded_state_def example_state_def)
  show ?thesis
    using a c
    by (simp add: three_questions_def conversation_after_def serve_def example_ask_saves
        example_ask_stopped)
qed

text \<open>
  C7. Start from an empty log and serve any requests (fewer than \<open>2^63 - 1\<close>). Then the
  read of \<open>index\<close> and the read of \<open>ask\<close> both return exactly the conversation: the
  entries saved since the log was last cleared, in the order in which they were
  inserted. The read of \<open>index\<close> has no \<open>ORDER BY\<close>; it is modelled as SQLite performs
  it, a scan of the table in rowid order.
\<close>

theorem log_reads_in_insertion_order:
  assumes "chat_history s0 = []" and "int (length rs) < 2 ^ 63 - 1"
  shows "index_history (serve_all env s0 rs) = conversation env s0 [] rs
       \<and> session_history (serve_all env s0 rs) = conversation env s0 [] rs"
proof -
  have inv0: "rowids_from_one (chat_history s0)" using assms(1) by (simp add: rowids_empty)
  have b0: "int (length (chat_history s0)) + int (length rs) < 2 ^ 63"
    using assms by simp
  have inv: "rowids_from_one (chat_history (serve_all env s0 rs))"
    using serve_all_rowids [OF inv0 b0] by blast
  have "index_history s0 = []"
    using assms(1) by (simp add: index_history_def sql_select_all_def)
  then have "index_history (serve_all env s0 rs) = conversation env s0 [] rs"
    using serve_all_index_history [OF inv0 b0, of env] by simp
  then show ?thesis
    using reads_agree [OF inv] by simp
qed

theorem log_reads_in_insertion_order_witness:
  "chat_history loaded_state = []
   \<and> int (length three_questions) < 2 ^ 63 - 1
   \<and> conversation example_env loaded_state [] three_questions
       = [(Some (ascii ''first''), ascii ''first''), (Some (ascii ''second''), ascii ''second'')]
   \<and> index_history (serve_all example_env loaded_state three_questions)
       = [(Some (ascii ''first''), ascii ''first''), (Some (ascii ''second''), ascii ''second'')]
   \<and> session_history (serve_all example_env loaded_state three_questions)
       = [(Some (ascii ''first''), ascii ''first''), (Some (ascii ''second''), ascii ''second'')]"
proof -
  have h1: "chat_history loaded_state = []" by (simp add: loaded_state_def)
  have h2: "int (length three_questions) < 2 ^ 63 - 1" by (simp add: three_questions_def)
  show ?thesis
    using h1 h2 three_questions_conversation
      log_reads_in_insertion_order [OF h1 h2, of example_env]
    by simp
qed

end
